theory Spec2Isabelle
  imports Complex_Main "HOL-Library.Sublist" "HOL-Library.AList"
begin

section \<open>Python values, exceptions and the runtime\<close>

text \<open>
  The program is one Python module, \<^verbatim>\<open>main.py\<close>. Python strings are modelled as
  their UTF-8 byte sequences (type \<open>string\<close>): the program only lower-cases them, splits
  them at an ASCII separator, compares them and tests containment, and containment of valid
  UTF-8 sequences coincides with containment of the code-point sequences.

  Exceptions are values. \<open>OtherException n\<close> is any further subclass of \<open>Exception\<close>
  (what the warehouse client raises), \<open>NonException n\<close> a \<open>BaseException\<close> that is not
  an \<open>Exception\<close> (\<open>KeyboardInterrupt\<close>, \<open>SystemExit\<close>): a clause
  \<^verbatim>\<open>except Exception\<close> catches the former and lets the latter through.
\<close>

datatype py_error =
    TypeError | ValueError | KeyError | AttributeError | OverflowError | ZeroDivisionError
  | OtherException string
  | NonException string

fun is_Exception :: "py_error \<Rightarrow> bool" where
  "is_Exception (NonException n) = False"
| "is_Exception e = True"

text \<open>\<^verbatim>\<open>type(e).__name__\<close>\<close>

fun class_name :: "py_error \<Rightarrow> string" where
  "class_name TypeError = ''TypeError''"
| "class_name ValueError = ''ValueError''"
| "class_name KeyError = ''KeyError''"
| "class_name AttributeError = ''AttributeError''"
| "class_name OverflowError = ''OverflowError''"
| "class_name ZeroDivisionError = ''ZeroDivisionError''"
| "class_name (OtherException n) = n"
| "class_name (NonException n) = n"

text \<open>
  What \<^verbatim>\<open>request.get_json(silent=True)\<close> returns: a decoded JSON document
  (\<open>JNull\<close> is \<^verbatim>\<open>None\<close>, also returned for a missing or unparsable body). A dict is
  an association list read with \<open>map_of\<close>. A float is the rational it denotes, or one of
  the non-finite floats: the JSON parser yields \<open>inf\<close> for a number too large for a float
  (such as \<^verbatim>\<open>1e400\<close>) and accepts the literals \<^verbatim>\<open>Infinity\<close>, \<^verbatim>\<open>-Infinity\<close>
  and \<^verbatim>\<open>NaN\<close>.
\<close>

datatype pyfloat = Finite rat | Infinity | Neg_infinity | NaN

datatype json =
    JNull | JBool bool | JInt int | JFloat pyfloat | JStr string
  | JArr "json list" | JObj "(string \<times> json) list"

text \<open>Truth value testing, as \<^verbatim>\<open>x or y\<close> applies it.\<close>

fun truthy :: "json \<Rightarrow> bool" where
  "truthy JNull = False"
| "truthy (JBool b) = b"
| "truthy (JInt i) = (i \<noteq> 0)"
| "truthy (JFloat x) = (x \<noteq> Finite 0)"
| "truthy (JStr s) = (s \<noteq> [])"
| "truthy (JArr xs) = (xs \<noteq> [])"
| "truthy (JObj kvs) = (kvs \<noteq> [])"

text \<open>
  The functions of the Python runtime that the code calls and that are not written out here
  are parameters of the model: \<^verbatim>\<open>str.lower\<close>, the parser behind \<^verbatim>\<open>int(s)\<close> for
  a string \<open>s\<close> (\<open>None\<close> where it raises \<open>ValueError\<close>), \<^verbatim>\<open>str(x)\<close> for a float
  \<open>x\<close>, and the clock read by \<^verbatim>\<open>datetime.utcnow().isoformat()\<close>. Every theorem
  below holds for all of them.
\<close>

record runtime =
  str_lower :: "string \<Rightarrow> string"
  int_of_str :: "string \<Rightarrow> int option"
  float_str :: "rat \<Rightarrow> string"
  utcnow_isoformat :: string

text \<open>
  \<^verbatim>\<open>int(x)\<close>: a finite float is truncated towards zero, an infinity raises
  \<open>OverflowError\<close> and a NaN raises \<open>ValueError\<close>.
\<close>

fun py_int :: "runtime \<Rightarrow> json \<Rightarrow> py_error + int" where
  "py_int rt (JInt i) = Inr i"
| "py_int rt (JBool b) = Inr (if b then 1 else 0)"
| "py_int rt (JFloat (Finite r)) = Inr (if 0 \<le> r then \<lfloor>r\<rfloor> else \<lceil>r\<rceil>)"
| "py_int rt (JFloat Infinity) = Inl OverflowError"
| "py_int rt (JFloat Neg_infinity) = Inl OverflowError"
| "py_int rt (JFloat NaN) = Inl ValueError"
| "py_int rt (JStr s) = (case int_of_str rt s of None \<Rightarrow> Inl ValueError | Some i \<Rightarrow> Inr i)"
| "py_int rt JNull = Inl TypeError"
| "py_int rt (JArr xs) = Inl TypeError"
| "py_int rt (JObj kvs) = Inl TypeError"

section \<open>Query intent detection\<close>

text \<open>\<^verbatim>\<open>word in q\<close> for strings: \<open>word\<close> occurs in \<open>q\<close> as a contiguous block.\<close>

fun str_contains :: "string \<Rightarrow> string \<Rightarrow> bool" where
  "str_contains [] word = (word = [])"
| "str_contains (c # cs) word = (prefix word (c # cs) \<or> str_contains cs word)"

text \<open>\<^verbatim>\<open>pattern.split(sep)\<close> for a one-character separator.\<close>

fun split_on :: "char \<Rightarrow> string \<Rightarrow> string list" where
  "split_on sep [] = [[]]"
| "split_on sep (c # cs) =
     (if c = sep then [] # split_on sep cs
      else (case split_on sep cs of [] \<Rightarrow> [[c]] | w # ws \<Rightarrow> (c # w) # ws))"

text \<open>The Turkish letters of the keyword table, in UTF-8.\<close>

definition s_cedilla :: string where "s_cedilla = [CHR 0xC5, CHR 0x9F]"
definition dotless_i :: string where "dotless_i = [CHR 0xC4, CHR 0xB1]"
definition u_umlaut :: string where "u_umlaut = [CHR 0xC3, CHR 0xBC]"
definition c_cedilla :: string where "c_cedilla = [CHR 0xC3, CHR 0xA7]"

text \<open>
  The dict \<^verbatim>\<open>patterns\<close> of \<^verbatim>\<open>detect_query_intent\<close>, in insertion order (the order
  \<^verbatim>\<open>patterns.items()\<close> iterates in).
\<close>

definition patterns :: "(string \<times> string list) list" where
  "patterns =
    [(''competitor_tracking'',
        [''competitor|rakip|competition'', ''price|fiyat|pricing'', ''market|pazar'',
         ''positioning|konum'',
         ''comparison|kar'' @ s_cedilla @ dotless_i @ ''la'' @ s_cedilla @ ''t'' @ dotless_i @ ''rma'',
         ''advantage|avantaj'']),
     (''campaign_performance'',
        [''campaign|kampanya|promotion'', ''roi|kar|return'', ''marketing|pazarlama'',
         ''discount|indirim'',
         ''performance|ba'' @ s_cedilla @ ''ar'' @ dotless_i,
         ''effectiveness|etkinlik'']),
     (''price_elasticity'',
        [''elasticity|elastikiyet|optimization'', ''optimal|optimum'', ''demand|talep'',
         ''sensitivity|hassasiyet'', ''revenue|gelir'', ''margin|kar'']),
     (''promotional_calendar'',
        [''calendar|takvim|schedule'', ''planning|planlama'', ''future|gelecek'',
         ''budget|b'' @ u_umlaut @ ''t'' @ c_cedilla @ ''e'',
         ''timeline|zaman'', ''seasonal|mevsimsel''])]"

text \<open>\<^verbatim>\<open>any(word in q for word in pattern.split("|"))\<close>\<close>

definition pattern_matches :: "string \<Rightarrow> string \<Rightarrow> bool" where
  "pattern_matches q pattern = list_ex (\<lambda>word. str_contains q word) (split_on CHR ''|'' pattern)"

text \<open>
  The two nested loops: the first intent one of whose patterns matches is returned; after the
  loops, the default.
\<close>

fun scan_patterns :: "string \<Rightarrow> (string \<times> string list) list \<Rightarrow> string" where
  "scan_patterns q [] = ''competitor_tracking''"
| "scan_patterns q ((intent, pattern_list) # rest) =
     (if list_ex (pattern_matches q) pattern_list then intent else scan_patterns q rest)"

text \<open>
  \<^verbatim>\<open>q = (question or "").lower()\<close>: a truthy value that is not a string has no method
  \<^verbatim>\<open>lower\<close>.
\<close>

definition detect_query_intent :: "runtime \<Rightarrow> json \<Rightarrow> py_error + string" where
  "detect_query_intent rt question =
     (case (if truthy question then question else JStr []) of
        JStr s \<Rightarrow> Inr (scan_patterns (str_lower rt s) patterns)
      | _ \<Rightarrow> Inl AttributeError)"

section \<open>Rows of a query result\<close>

text \<open>
  A row is the dict \<^verbatim>\<open>dict(r)\<close> made of one result row: column names to scalar
  values (null, integer, float, string, date). A float is the rational it denotes and
  arithmetic on floats is exact here: rounding is not modelled, and no property below depends
  on the value of a computed number. A date is represented by its ISO text, which is what
  \<^verbatim>\<open>str\<close> returns and which orders as dates do.
\<close>

datatype cell = CNull | CInt int | CFloat rat | CStr string | CDate string

type_synonym row = "(string \<times> cell) list"

text \<open>\<^verbatim>\<open>r.get(key, default)\<close> and \<^verbatim>\<open>r[key]\<close>\<close>

definition row_get :: "row \<Rightarrow> string \<Rightarrow> cell \<Rightarrow> cell" where
  "row_get r key dflt = (case map_of r key of None \<Rightarrow> dflt | Some v \<Rightarrow> v)"

definition row_index :: "row \<Rightarrow> string \<Rightarrow> py_error + cell" where
  "row_index r key = (case map_of r key of None \<Rightarrow> Inl KeyError | Some v \<Rightarrow> Inr v)"

text \<open>Sequencing of computations that may raise.\<close>

definition bind_result :: "'e + 'a \<Rightarrow> ('a \<Rightarrow> 'e + 'b) \<Rightarrow> 'e + 'b" where
  "bind_result m f = (case m of Inl e \<Rightarrow> Inl e | Inr v \<Rightarrow> f v)"

text \<open>\<^verbatim>\<open>str(x)\<close>\<close>

definition digit_char :: "nat \<Rightarrow> char" where
  "digit_char d = char_of (48 + d)"

fun nat_str :: "nat \<Rightarrow> string" where
  "nat_str n = (if n < 10 then [digit_char n] else nat_str (n div 10) @ [digit_char (n mod 10)])"

definition int_str :: "int \<Rightarrow> string" where
  "int_str i = (if i < 0 then CHR ''-'' # nat_str (nat (- i)) else nat_str (nat i))"

fun cell_str :: "runtime \<Rightarrow> cell \<Rightarrow> string" where
  "cell_str rt CNull = ''None''"
| "cell_str rt (CInt i) = int_str i"
| "cell_str rt (CFloat x) = float_str rt x"
| "cell_str rt (CStr s) = s"
| "cell_str rt (CDate d) = d"

text \<open>The arithmetic and comparison operators, with the \<open>TypeError\<close> of unsupported operands.\<close>

fun py_add :: "cell \<Rightarrow> cell \<Rightarrow> py_error + cell" where
  "py_add (CInt a) (CInt b) = Inr (CInt (a + b))"
| "py_add (CInt a) (CFloat b) = Inr (CFloat (of_int a + b))"
| "py_add (CFloat a) (CInt b) = Inr (CFloat (a + of_int b))"
| "py_add (CFloat a) (CFloat b) = Inr (CFloat (a + b))"
| "py_add (CStr a) (CStr b) = Inr (CStr (a @ b))"
| "py_add x y = Inl TypeError"

fun py_sub :: "cell \<Rightarrow> cell \<Rightarrow> py_error + cell" where
  "py_sub (CInt a) (CInt b) = Inr (CInt (a - b))"
| "py_sub (CInt a) (CFloat b) = Inr (CFloat (of_int a - b))"
| "py_sub (CFloat a) (CInt b) = Inr (CFloat (a - of_int b))"
| "py_sub (CFloat a) (CFloat b) = Inr (CFloat (a - b))"
| "py_sub x y = Inl TypeError"

fun py_mul :: "cell \<Rightarrow> cell \<Rightarrow> py_error + cell" where
  "py_mul (CInt a) (CInt b) = Inr (CInt (a * b))"
| "py_mul (CInt a) (CFloat b) = Inr (CFloat (of_int a * b))"
| "py_mul (CFloat a) (CInt b) = Inr (CFloat (a * of_int b))"
| "py_mul (CFloat a) (CFloat b) = Inr (CFloat (a * b))"
| "py_mul (CStr s) (CInt n) = Inr (CStr (concat (replicate (nat n) s)))"
| "py_mul (CInt n) (CStr s) = Inr (CStr (concat (replicate (nat n) s)))"
| "py_mul x y = Inl TypeError"

text \<open>The number a numeric cell denotes.\<close>

fun number_of :: "cell \<Rightarrow> rat option" where
  "number_of (CInt a) = Some (of_int a)"
| "number_of (CFloat a) = Some a"
| "number_of x = None"

text \<open>\<^verbatim>\<open>a / b\<close> (true division)\<close>

definition py_truediv :: "cell \<Rightarrow> cell \<Rightarrow> py_error + cell" where
  "py_truediv x y =
     (case (number_of x, number_of y) of
        (Some a, Some b) \<Rightarrow> if b = 0 then Inl ZeroDivisionError else Inr (CFloat (a / b))
      | _ \<Rightarrow> Inl TypeError)"

fun py_abs :: "cell \<Rightarrow> py_error + cell" where
  "py_abs (CInt a) = Inr (CInt \<bar>a\<bar>)"
| "py_abs (CFloat a) = Inr (CFloat \<bar>a\<bar>)"
| "py_abs x = Inl TypeError"

text \<open>Strings compare by code points, which is the order of their UTF-8 bytes.\<close>

fun str_less :: "string \<Rightarrow> string \<Rightarrow> bool" where
  "str_less [] [] = False"
| "str_less [] (y # ys) = True"
| "str_less (x # xs) [] = False"
| "str_less (x # xs) (y # ys) =
     ((of_char x :: nat) < of_char y \<or> (x = y \<and> str_less xs ys))"

text \<open>\<^verbatim>\<open>a < b\<close>; \<^verbatim>\<open>a > b\<close> is \<open>py_lt b a\<close> and \<^verbatim>\<open>a <= b\<close> is below.\<close>

fun py_lt :: "cell \<Rightarrow> cell \<Rightarrow> py_error + bool" where
  "py_lt (CStr a) (CStr b) = Inr (str_less a b)"
| "py_lt (CDate a) (CDate b) = Inr (str_less a b)"
| "py_lt x y =
     (case (number_of x, number_of y) of
        (Some a, Some b) \<Rightarrow> Inr (a < b)
      | _ \<Rightarrow> Inl TypeError)"

definition py_gt :: "cell \<Rightarrow> cell \<Rightarrow> py_error + bool" where
  "py_gt x y = py_lt y x"

fun py_le :: "cell \<Rightarrow> cell \<Rightarrow> py_error + bool" where
  "py_le (CStr a) (CStr b) = Inr (\<not> str_less b a)"
| "py_le (CDate a) (CDate b) = Inr (\<not> str_less b a)"
| "py_le x y =
     (case (number_of x, number_of y) of
        (Some a, Some b) \<Rightarrow> Inr (a \<le> b)
      | _ \<Rightarrow> Inl TypeError)"

text \<open>\<^verbatim>\<open>sum(xs)\<close> is \<open>py_sum (CInt 0) xs\<close>: the running total starts at the integer 0.\<close>

fun py_sum :: "cell \<Rightarrow> cell list \<Rightarrow> py_error + cell" where
  "py_sum running [] = Inr running"
| "py_sum running (x # xs) = bind_result (py_add running x) (\<lambda>t. py_sum t xs)"

text \<open>
  \<^verbatim>\<open>max(rows, key=f)\<close> on a non-empty list: the running maximum is replaced by an item
  whose key is greater (\<open>>\<close>), so the first of several maxima is kept.
\<close>

fun py_max_from :: "(row \<Rightarrow> cell) \<Rightarrow> row \<Rightarrow> row list \<Rightarrow> py_error + row" where
  "py_max_from f best [] = Inr best"
| "py_max_from f best (x # xs) =
     bind_result (py_gt (f x) (f best)) (\<lambda>greater. py_max_from f (if greater then x else best) xs)"

fun py_max :: "(row \<Rightarrow> cell) \<Rightarrow> row list \<Rightarrow> py_error + row" where
  "py_max f [] = Inl ValueError"
| "py_max f (x # xs) = py_max_from f x xs"

text \<open>
  \<^verbatim>\<open>len(set(xs))\<close>: an integer and a float of the same value are one element of a set.
\<close>

fun hash_key :: "cell \<Rightarrow> cell" where
  "hash_key (CFloat x) = (if of_int \<lfloor>x\<rfloor> = x then CInt \<lfloor>x\<rfloor> else CFloat x)"
| "hash_key c = c"

definition py_len_set :: "cell list \<Rightarrow> nat" where
  "py_len_set xs = length (remdups (map hash_key xs))"

text \<open>\<^verbatim>\<open>[r for r in rows if cond(r)]\<close> with a condition that may raise.\<close>

fun py_filter :: "(row \<Rightarrow> py_error + bool) \<Rightarrow> row list \<Rightarrow> py_error + row list" where
  "py_filter cond [] = Inr []"
| "py_filter cond (r # rs) =
     bind_result (cond r) (\<lambda>keep. bind_result (py_filter cond rs) (\<lambda>kept. Inr (if keep then r # kept else kept)))"

section \<open>Labels\<close>

text \<open>
  The query builders attach labels to each row, and the insight synthesizer looks for them.
  Every label starts with an emoji, written here in UTF-8.
\<close>

definition emoji_trophy :: string where "emoji_trophy = [CHR 0xF0, CHR 0x9F, CHR 0x8F, CHR 0x86]"
definition emoji_money_bag :: string where "emoji_money_bag = [CHR 0xF0, CHR 0x9F, CHR 0x92, CHR 0xB0]"
definition emoji_scales :: string where
  "emoji_scales = [CHR 0xE2, CHR 0x9A, CHR 0x96, CHR 0xEF, CHR 0xB8, CHR 0x8F]"
definition emoji_red_circle :: string where "emoji_red_circle = [CHR 0xF0, CHR 0x9F, CHR 0x94, CHR 0xB4]"
definition emoji_bar_chart :: string where "emoji_bar_chart = [CHR 0xF0, CHR 0x9F, CHR 0x93, CHR 0x8A]"
definition emoji_gem :: string where "emoji_gem = [CHR 0xF0, CHR 0x9F, CHR 0x92, CHR 0x8E]"
definition emoji_warning :: string where
  "emoji_warning = [CHR 0xE2, CHR 0x9A, CHR 0xA0, CHR 0xEF, CHR 0xB8, CHR 0x8F]"
definition emoji_chart_down :: string where "emoji_chart_down = [CHR 0xF0, CHR 0x9F, CHR 0x93, CHR 0x89]"
definition emoji_chart_up :: string where "emoji_chart_up = [CHR 0xF0, CHR 0x9F, CHR 0x93, CHR 0x88]"
definition emoji_target :: string where "emoji_target = [CHR 0xF0, CHR 0x9F, CHR 0x8E, CHR 0xAF]"
definition emoji_repeat :: string where "emoji_repeat = [CHR 0xF0, CHR 0x9F, CHR 0x94, CHR 0x81]"
definition emoji_rocket :: string where "emoji_rocket = [CHR 0xF0, CHR 0x9F, CHR 0x9A, CHR 0x80]"
definition emoji_star :: string where "emoji_star = [CHR 0xE2, CHR 0xAD, CHR 0x90]"
definition emoji_swords :: string where
  "emoji_swords = [CHR 0xE2, CHR 0x9A, CHR 0x94, CHR 0xEF, CHR 0xB8, CHR 0x8F]"
definition emoji_calendar :: string where "emoji_calendar = [CHR 0xF0, CHR 0x9F, CHR 0x93, CHR 0x85]"

section \<open>The competitive position label of the competitor tracking query\<close>

text \<open>
  SQL's three-valued logic: a comparison with \<open>NULL\<close> is \<open>NULL\<close> (\<open>None\<close>), and a
  \<open>CASE\<close> takes the first \<open>WHEN\<close> whose condition is true.
\<close>

definition sql_le :: "rat option \<Rightarrow> rat option \<Rightarrow> bool option" where
  "sql_le x y = (case (x, y) of (Some a, Some b) \<Rightarrow> Some (a \<le> b) | _ \<Rightarrow> None)"

definition sql_ge :: "rat option \<Rightarrow> rat option \<Rightarrow> bool option" where
  "sql_ge x y = sql_le y x"

definition sql_eq :: "string option \<Rightarrow> string option \<Rightarrow> bool option" where
  "sql_eq x y = (case (x, y) of (Some a, Some b) \<Rightarrow> Some (a = b) | _ \<Rightarrow> None)"

definition sql_and :: "bool option \<Rightarrow> bool option \<Rightarrow> bool option" where
  "sql_and p q =
     (if p = Some False \<or> q = Some False then Some False
      else if p = Some True \<and> q = Some True then Some True else None)"

definition sql_or :: "bool option \<Rightarrow> bool option \<Rightarrow> bool option" where
  "sql_or p q =
     (if p = Some True \<or> q = Some True then Some True
      else if p = Some False \<and> q = Some False then Some False else None)"

text \<open>\<^verbatim>\<open>x IN (v1, v2, ...)\<close> is \<^verbatim>\<open>x = v1 OR x = v2 OR ...\<close>\<close>

fun sql_in :: "string option \<Rightarrow> string list \<Rightarrow> bool option" where
  "sql_in x [] = Some False"
| "sql_in x (v # vs) = sql_or (sql_eq x (Some v)) (sql_in x vs)"

definition sql_between :: "rat option \<Rightarrow> rat option \<Rightarrow> rat option \<Rightarrow> bool option" where
  "sql_between x lo hi = sql_and (sql_ge x lo) (sql_le x hi)"

fun sql_case :: "(bool option \<times> 'a) list \<Rightarrow> 'a \<Rightarrow> 'a" where
  "sql_case [] otherwise = otherwise"
| "sql_case ((cond, v) # whens) otherwise = (if cond = Some True then v else sql_case whens otherwise)"

text \<open>\<^verbatim>\<open>SuvariPricingMetrics\<close>, the thresholds the label uses.\<close>

definition PRICE_ADVANTAGE_THRESHOLD :: rat where "PRICE_ADVANTAGE_THRESHOLD = - 15"
definition PRICE_DISADVANTAGE_THRESHOLD :: rat where "PRICE_DISADVANTAGE_THRESHOLD = 10"

text \<open>
  The \<^verbatim>\<open>CASE ... END as competitive_position\<close> of \<^verbatim>\<open>sql_competitor_tracking\<close>, a
  function of the row's columns \<^verbatim>\<open>price_gap_pct\<close> and \<^verbatim>\<open>market_share_impact\<close>.
\<close>

definition competitive_position :: "rat option \<Rightarrow> string option \<Rightarrow> string" where
  "competitive_position price_gap_pct market_share_impact =
     sql_case
       [(sql_and (sql_le price_gap_pct (Some (- 30))) (sql_eq market_share_impact (Some ''Very Positive'')),
           emoji_trophy @ '' Dominant Market Position''),
        (sql_and (sql_le price_gap_pct (Some PRICE_ADVANTAGE_THRESHOLD))
                 (sql_in market_share_impact [''Positive'', ''Very Positive'']),
           emoji_money_bag @ '' Strong Price Advantage''),
        (sql_between price_gap_pct (Some (- 15)) (Some 15),
           emoji_scales @ '' Competitive Parity''),
        (sql_ge price_gap_pct (Some PRICE_DISADVANTAGE_THRESHOLD),
           emoji_red_circle @ '' Price Disadvantage'')]
       (emoji_bar_chart @ '' Neutral Position'')"

section \<open>Insight synthesis\<close>

text \<open>
  \<^verbatim>\<open>analyze_pricing_results\<close> builds its texts from fixed strings and f-strings. A text
  is represented by the template it comes from (named below with its source line) and the
  values filled in: nothing (\<open>Fixed\<close>), the length of a filtered row list (\<open>Counted\<close>), or
  values computed from the rows (\<open>Valued\<close>, each formatted by the template).
\<close>

datatype template =
    No_data_found \<comment> \<open>line 602\<close>
  | Widen_criteria \<comment> \<open>line 603\<close>
  | Strong_price_advantages \<comment> \<open>line 614\<close>
  | Price_disadvantages \<comment> \<open>line 617\<close>
  | Revise_disadvantaged_categories \<comment> \<open>line 618\<close>
  | Premium_value_propositions \<comment> \<open>line 623\<close>
  | Competitor_promo_pressure \<comment> \<open>line 628\<close>
  | Respond_to_competitor_promotions \<comment> \<open>line 629\<close>
  | Average_price_advantage \<comment> \<open>line 636\<close>
  | Average_price_disadvantage \<comment> \<open>line 638\<close>
  | Average_price_parity \<comment> \<open>line 640\<close>
  | Top_campaign \<comment> \<open>line 649\<close>
  | Poor_campaigns \<comment> \<open>line 652\<close>
  | Optimize_low_roi_campaigns \<comment> \<open>line 653\<close>
  | Efficient_acquisition \<comment> \<open>line 658\<close>
  | Excellent_retention \<comment> \<open>line 663\<close>
  | Overall_campaign_roi \<comment> \<open>line 670\<close>
  | Price_increase_opportunities \<comment> \<open>line 678\<close>
  | Evaluate_price_increases \<comment> \<open>line 679\<close>
  | Under_priced_products \<comment> \<open>line 682\<close>
  | Optimize_under_priced \<comment> \<open>line 683\<close>
  | High_revenue_impact \<comment> \<open>line 688\<close>
  | Start_ab_tests \<comment> \<open>line 689\<close>
  | Low_price_sensitivity \<comment> \<open>line 694\<close>
  | Evaluate_premium_pricing \<comment> \<open>line 695\<close>
  | High_impact_low_cost \<comment> \<open>line 703\<close>
  | Execute_high_impact_low_cost_first \<comment> \<open>line 704\<close>
  | Total_high_impact \<comment> \<open>line 706\<close>
  | Competitive_battlegrounds \<comment> \<open>line 711\<close>
  | Differentiate_in_battlegrounds \<comment> \<open>line 712\<close>
  | Total_planned_budget \<comment> \<open>line 718\<close>
  | Major_investments \<comment> \<open>line 720\<close>
  | Flash_campaigns \<comment> \<open>line 727\<close>
  | Extended_campaigns \<comment> \<open>line 729\<close>

datatype message = Fixed template | Counted template nat | Valued template "cell list"

text \<open>The three lists the function appends to, and the dict it returns.\<close>

record analysis =
  insights :: "message list"
  recommendations :: "message list"
  alerts :: "message list"

definition add_insight :: "message \<Rightarrow> analysis \<Rightarrow> analysis" where
  "add_insight m a = a\<lparr>insights := insights a @ [m]\<rparr>"

definition add_recommendation :: "message \<Rightarrow> analysis \<Rightarrow> analysis" where
  "add_recommendation m a = a\<lparr>recommendations := recommendations a @ [m]\<rparr>"

definition add_alert :: "message \<Rightarrow> analysis \<Rightarrow> analysis" where
  "add_alert m a = a\<lparr>alerts := alerts a @ [m]\<rparr>"

text \<open>
  A statement of the \<^verbatim>\<open>try\<close> block takes the lists as they are and leaves them as it
  made them, together with the exception it raised, if any. Statements run in sequence until
  one raises.
\<close>

type_synonym step = "analysis \<Rightarrow> analysis \<times> py_error option"

fun run_steps :: "step list \<Rightarrow> step" where
  "run_steps [] a = (a, None)"
| "run_steps (s # ss) a =
     (case s a of (a', None) \<Rightarrow> run_steps ss a' | (a', Some e) \<Rightarrow> (a', Some e))"

text \<open>\<^verbatim>\<open>if matched: <appends>\<close>, which cannot raise.\<close>

definition when_any :: "row list \<Rightarrow> (analysis \<Rightarrow> analysis) \<Rightarrow> step" where
  "when_any matched appends a = (if matched \<noteq> [] then appends a else a, None)"

text \<open>
  A statement that computes values, which may raise, and then appends an insight made of
  them (or nothing, where a condition on the values is false).
\<close>

definition computed_insight :: "(py_error + message option) \<Rightarrow> step" where
  "computed_insight computation a =
     (case computation of
        Inl e \<Rightarrow> (a, Some e)
      | Inr None \<Rightarrow> (a, None)
      | Inr (Some m) \<Rightarrow> (add_insight m a, None))"

text \<open>\<^verbatim>\<open>[r for r in rows if label in str(r.get(column, ''))]\<close>\<close>

definition has_label :: "runtime \<Rightarrow> string \<Rightarrow> string \<Rightarrow> row \<Rightarrow> bool" where
  "has_label rt label column r = str_contains (cell_str rt (row_get r column (CStr []))) label"

definition labelled :: "runtime \<Rightarrow> string \<Rightarrow> string \<Rightarrow> row list \<Rightarrow> row list" where
  "labelled rt label column rows = filter (has_label rt label column) rows"

text \<open>\<^verbatim>\<open>sum(r.get(column, 0) for r in rows)\<close>\<close>

definition sum_column :: "string \<Rightarrow> row list \<Rightarrow> py_error + cell" where
  "sum_column column rows = py_sum (CInt 0) (map (\<lambda>r. row_get r column (CInt 0)) rows)"

subsection \<open>Competitor tracking (lines 608 to 640)\<close>

text \<open>
  \<^verbatim>\<open>if price_gaps: avg_gap = sum(price_gaps) / len(price_gaps)\<close> and the three-way choice
  of the text.
\<close>

definition average_gap_insight :: "cell list \<Rightarrow> py_error + message option" where
  "average_gap_insight price_gaps =
     (if price_gaps = [] then Inr None
      else
        bind_result (py_sum (CInt 0) price_gaps) (\<lambda>s.
        bind_result (py_truediv s (CInt (int (length price_gaps)))) (\<lambda>avg_gap.
        bind_result (py_lt avg_gap (CInt (- 10))) (\<lambda>below.
          if below then
            bind_result (py_abs avg_gap) (\<lambda>v. Inr (Some (Valued Average_price_advantage [v])))
          else
            bind_result (py_gt avg_gap (CInt 10)) (\<lambda>above.
              Inr (Some (Valued (if above then Average_price_disadvantage
                                 else Average_price_parity) [avg_gap])))))))"

definition analyze_competitor_tracking :: "runtime \<Rightarrow> row list \<Rightarrow> step list" where
  "analyze_competitor_tracking rt rows =
    (let strong_advantages =
           labelled rt (emoji_money_bag @ '' Strong Price Advantage'') ''competitive_position'' rows;
         price_disadvantages =
           labelled rt (emoji_red_circle @ '' Price Disadvantage'') ''competitive_position'' rows;
         premium_positions =
           labelled rt (emoji_gem @ '' Premium Value Proposition'') ''value_proposition'' rows;
         promo_pressure =
           labelled rt (emoji_warning @ '' Competitor Promotional Pressure'')
             ''promotional_environment'' rows;
         price_gaps =
           map (\<lambda>r. row_get r ''price_gap_pct'' (CInt 0))
             (filter (\<lambda>r. row_get r ''price_gap_pct'' CNull \<noteq> CNull) rows)
     in [when_any strong_advantages
           (add_insight (Counted Strong_price_advantages (length strong_advantages))),
         when_any price_disadvantages
           (\<lambda>a. add_recommendation (Fixed Revise_disadvantaged_categories)
                  (add_alert (Counted Price_disadvantages (length price_disadvantages)) a)),
         when_any premium_positions
           (add_insight (Counted Premium_value_propositions (length premium_positions))),
         when_any promo_pressure
           (\<lambda>a. add_recommendation (Fixed Respond_to_competitor_promotions)
                  (add_alert (Counted Competitor_promo_pressure (length promo_pressure)) a)),
         computed_insight (average_gap_insight price_gaps)])"

subsection \<open>Campaign performance (lines 642 to 670)\<close>

text \<open>
  \<^verbatim>\<open>if excellent_roi: top_campaign = max(excellent_roi, key=...)\<close> and the text with
  \<^verbatim>\<open>top_campaign['campaign_name']\<close> and \<^verbatim>\<open>top_campaign['roi_pct']\<close>.
\<close>

definition top_campaign_insight :: "row list \<Rightarrow> py_error + message option" where
  "top_campaign_insight excellent_roi =
     (if excellent_roi = [] then Inr None
      else
        bind_result (py_max (\<lambda>x. row_get x ''roi_pct'' (CInt 0)) excellent_roi) (\<lambda>top_campaign.
        bind_result (row_index top_campaign ''campaign_name'') (\<lambda>name.
        bind_result (row_index top_campaign ''roi_pct'') (\<lambda>roi.
          Inr (Some (Valued Top_campaign [name, roi]))))))"

text \<open>
  \<^verbatim>\<open>total_revenue\<close>, \<^verbatim>\<open>total_cost\<close>, and
  \<^verbatim>\<open>if total_cost > 0: overall_roi = (total_revenue / total_cost - 1) * 100\<close>.
\<close>

definition overall_roi_insight :: "row list \<Rightarrow> py_error + message option" where
  "overall_roi_insight rows =
     bind_result (sum_column ''revenue_generated'' rows) (\<lambda>total_revenue.
     bind_result (sum_column ''campaign_cost'' rows) (\<lambda>total_cost.
     bind_result (py_gt total_cost (CInt 0)) (\<lambda>positive.
       if positive then
         bind_result (py_truediv total_revenue total_cost) (\<lambda>ratio.
         bind_result (py_sub ratio (CInt 1)) (\<lambda>excess.
         bind_result (py_mul excess (CInt 100)) (\<lambda>overall_roi.
           Inr (Some (Valued Overall_campaign_roi [overall_roi])))))
       else Inr None)))"

definition analyze_campaign_performance :: "runtime \<Rightarrow> row list \<Rightarrow> step list" where
  "analyze_campaign_performance rt rows =
    (let excellent_roi =
           labelled rt (emoji_trophy @ '' Excellent Campaign ROI'') ''campaign_performance_tier'' rows;
         poor_performance =
           labelled rt (emoji_chart_down @ '' Poor Campaign Performance'')
             ''campaign_performance_tier'' rows;
         efficient_acquisition =
           labelled rt (emoji_target @ '' Efficient Customer Acquisition'')
             ''acquisition_effectiveness'' rows;
         excellent_retention =
           labelled rt (emoji_repeat @ '' Excellent Customer Retention'')
             ''retention_performance'' rows
     in [computed_insight (top_campaign_insight excellent_roi),
         when_any poor_performance
           (\<lambda>a. add_recommendation (Fixed Optimize_low_roi_campaigns)
                  (add_alert (Counted Poor_campaigns (length poor_performance)) a)),
         when_any efficient_acquisition
           (add_insight (Counted Efficient_acquisition (length efficient_acquisition))),
         when_any excellent_retention
           (add_insight (Counted Excellent_retention (length excellent_retention))),
         computed_insight (overall_roi_insight rows)])"

subsection \<open>Price elasticity (lines 672 to 695)\<close>

definition analyze_price_elasticity :: "runtime \<Rightarrow> row list \<Rightarrow> step list" where
  "analyze_price_elasticity rt rows =
    (let price_increase_opps =
           labelled rt (emoji_chart_up @ '' Strong Price Increase Opportunity'')
             ''pricing_strategy'' rows;
         under_priced =
           labelled rt (emoji_money_bag @ '' Under-priced Product'') ''price_optimization_status'' rows;
         high_revenue_impact =
           labelled rt (emoji_rocket @ '' High Revenue Impact Potential'')
             ''revenue_opportunity_level'' rows;
         low_sensitivity =
           labelled rt (emoji_gem @ '' Low Price Sensitivity'') ''sensitivity_classification'' rows
     in [when_any price_increase_opps
           (\<lambda>a. add_recommendation (Fixed Evaluate_price_increases)
                  (add_insight (Counted Price_increase_opportunities (length price_increase_opps)) a)),
         when_any under_priced
           (\<lambda>a. add_recommendation (Fixed Optimize_under_priced)
                  (add_insight (Counted Under_priced_products (length under_priced)) a)),
         when_any high_revenue_impact
           (\<lambda>a. add_recommendation (Fixed Start_ab_tests)
                  (add_insight (Counted High_revenue_impact (length high_revenue_impact)) a)),
         when_any low_sensitivity
           (\<lambda>a. add_recommendation (Fixed Evaluate_premium_pricing)
                  (add_insight (Counted Low_price_sensitivity (length low_sensitivity)) a))])"

subsection \<open>Promotional calendar (lines 697 to 729)\<close>

text \<open>
  The total of high impact campaigns (line 706) and the total budget (line 718) are appended
  without a condition; \<^verbatim>\<open>sum\<close> of the budgets may raise.
\<close>

definition analyze_promotional_calendar :: "runtime \<Rightarrow> row list \<Rightarrow> step list" where
  "analyze_promotional_calendar rt rows =
    (let high_impact_low_cost =
           labelled rt (emoji_rocket @ '' High Impact Low Cost'') ''campaign_priority_tier'' rows;
         high_impact =
           labelled rt (emoji_star @ '' High Impact Campaign'') ''campaign_priority_tier'' rows;
         competitive_battlegrounds =
           labelled rt (emoji_swords @ '' Competitive Battleground'') ''competitive_intensity'' rows;
         major_investments =
           labelled rt (emoji_money_bag @ '' Major Campaign Investment'') ''budget_scale'' rows;
         flash_campaigns =
           labelled rt (emoji_rocket @ '' Flash Campaign'') ''duration_strategy'' rows;
         extended_campaigns =
           labelled rt (emoji_calendar @ '' Extended Campaign Period'') ''duration_strategy'' rows
     in [when_any high_impact_low_cost
           (\<lambda>a. add_recommendation (Fixed Execute_high_impact_low_cost_first)
                  (add_insight (Counted High_impact_low_cost (length high_impact_low_cost)) a)),
         (\<lambda>a. (add_insight
                  (Counted Total_high_impact (length (high_impact @ high_impact_low_cost))) a, None)),
         when_any competitive_battlegrounds
           (\<lambda>a. add_recommendation (Fixed Differentiate_in_battlegrounds)
                  (add_alert (Counted Competitive_battlegrounds (length competitive_battlegrounds)) a)),
         computed_insight
           (bind_result (sum_column ''budget_usd'' rows) (\<lambda>total_budget.
              Inr (Some (Valued Total_planned_budget [total_budget])))),
         when_any major_investments
           (add_insight (Counted Major_investments (length major_investments))),
         when_any flash_campaigns
           (add_insight (Counted Flash_campaigns (length flash_campaigns))),
         when_any extended_campaigns
           (add_insight (Counted Extended_campaigns (length extended_campaigns)))])"

subsection \<open>The function\<close>

text \<open>The statements of the \<^verbatim>\<open>try\<close> block: the \<^verbatim>\<open>if/elif\<close> chain on the query type.\<close>

definition analysis_statements :: "runtime \<Rightarrow> row list \<Rightarrow> json \<Rightarrow> step list" where
  "analysis_statements rt rows query_type =
     (if query_type = JStr ''competitor_tracking'' then analyze_competitor_tracking rt rows
      else if query_type = JStr ''campaign_performance'' then analyze_campaign_performance rt rows
      else if query_type = JStr ''price_elasticity'' then analyze_price_elasticity rt rows
      else if query_type = JStr ''promotional_calendar'' then analyze_promotional_calendar rt rows
      else [])"

definition empty_analysis :: analysis where
  "empty_analysis = \<lparr>insights = [], recommendations = [], alerts = []\<rparr>"

text \<open>The lists as the \<^verbatim>\<open>try\<close> block leaves them, and the exception that ended it, if any.\<close>

definition try_block :: "runtime \<Rightarrow> row list \<Rightarrow> json \<Rightarrow> analysis \<times> py_error option" where
  "try_block rt rows query_type = run_steps (analysis_statements rt rows query_type) empty_analysis"

text \<open>The final \<^verbatim>\<open>return\<close>: \<^verbatim>\<open>insights[:10]\<close>, \<^verbatim>\<open>recommendations[:5]\<close>, \<^verbatim>\<open>alerts[:5]\<close>.\<close>

definition truncated :: "analysis \<Rightarrow> analysis" where
  "truncated a =
     \<lparr>insights = take 10 (insights a), recommendations = take 5 (recommendations a),
      alerts = take 5 (alerts a)\<rparr>"

text \<open>
  \<^verbatim>\<open>analyze_pricing_results(rows, query_type)\<close>. The handler of the \<^verbatim>\<open>try\<close> block is
  \<^verbatim>\<open>except Exception\<close>: it logs and falls through to the final \<^verbatim>\<open>return\<close>. \<open>Inl\<close> is
  an exception that leaves the function.
\<close>

definition analyze_pricing_results :: "runtime \<Rightarrow> row list \<Rightarrow> json \<Rightarrow> py_error + analysis" where
  "analyze_pricing_results rt rows query_type =
     (if rows = [] then
        Inr \<lparr>insights = [Fixed No_data_found], recommendations = [Fixed Widen_criteria], alerts = []\<rparr>
      else
        (case try_block rt rows query_type of
           (a, None) \<Rightarrow> Inr (truncated a)
         | (a, Some e) \<Rightarrow> if is_Exception e then Inr (truncated a) else Inl e))"

section \<open>Summary statistics\<close>

text \<open>The values of the summary dict: a count, a computed number, a text, the query type.\<close>

datatype summary_value = Count nat | Number cell | Text string | Query_type json

type_synonym summary = "(string \<times> summary_value) list"

text \<open>\<^verbatim>\<open>summary.update(entries)\<close>\<close>

definition dict_update :: "summary \<Rightarrow> summary \<Rightarrow> summary" where
  "dict_update d entries = fold (\<lambda>(k, v). AList.update k v) entries d"

text \<open>\<^verbatim>\<open>sum(r.get(column, 0) for r in rows) / len(rows) if rows else 0\<close>\<close>

definition mean_column :: "string \<Rightarrow> row list \<Rightarrow> py_error + cell" where
  "mean_column column rows =
     (if rows \<noteq> [] then
        bind_result (sum_column column rows) (\<lambda>s. py_truediv s (CInt (int (length rows))))
      else Inr (CInt 0))"

text \<open>\<^verbatim>\<open>len(set(r.get(column) for r in rows))\<close>\<close>

definition unique_count :: "string \<Rightarrow> row list \<Rightarrow> nat" where
  "unique_count column rows = py_len_set (map (\<lambda>r. row_get r column CNull) rows)"

text \<open>
  The dict display passed to \<^verbatim>\<open>summary.update\<close>, per query type (lines 753 to 783): it is
  evaluated in full before the update, so an exception leaves the summary as it was.
\<close>

definition summary_fields :: "row list \<Rightarrow> json \<Rightarrow> py_error + summary" where
  "summary_fields rows query_type =
     (if query_type = JStr ''competitor_tracking'' then
        bind_result (mean_column ''price_gap_pct'' rows) (\<lambda>avg_price_gap.
        bind_result
          (py_filter (\<lambda>r. py_le (row_get r ''price_gap_pct'' (CInt 0)) (CInt (- 15))) rows)
          (\<lambda>advantages.
            Inr [(''unique_competitors'', Count (unique_count ''competitor'' rows)),
                 (''unique_markets'', Count (unique_count ''market'' rows)),
                 (''avg_price_gap'', Number avg_price_gap),
                 (''competitive_advantages'', Count (length advantages))]))
      else if query_type = JStr ''campaign_performance'' then
        bind_result (sum_column ''revenue_generated'' rows) (\<lambda>total_revenue.
        bind_result (sum_column ''campaign_cost'' rows) (\<lambda>total_cost.
        bind_result (mean_column ''roi_pct'' rows) (\<lambda>avg_roi.
          Inr [(''unique_campaigns'', Count (unique_count ''campaign_name'' rows)),
               (''total_revenue'', Number total_revenue),
               (''total_cost'', Number total_cost),
               (''avg_roi'', Number avg_roi)])))
      else if query_type = JStr ''price_elasticity'' then
        bind_result (mean_column ''elasticity_coefficient'' rows) (\<lambda>avg_elasticity.
          Inr [(''price_points_analyzed'', Count (length rows)),
               (''unique_markets'', Count (unique_count ''market'' rows)),
               (''avg_elasticity'', Number avg_elasticity),
               (''price_increase_opportunities'',
                  Count (length (filter (\<lambda>r. row_get r ''recommendation'' CNull = CStr ''Increase Price'')
                                   rows)))])
      else if query_type = JStr ''promotional_calendar'' then
        bind_result (sum_column ''budget_usd'' rows) (\<lambda>total_budget.
        bind_result (mean_column ''expected_uplift_pct'' rows) (\<lambda>avg_expected_uplift.
          Inr [(''planned_campaigns'', Count (length rows)),
               (''total_budget'', Number total_budget),
               (''avg_expected_uplift'', Number avg_expected_uplift),
               (''unique_markets'', Count (unique_count ''target_market'' rows))]))
      else Inr [])"

text \<open>
  \<^verbatim>\<open>calculate_pricing_summary(rows, query_type)\<close>, with the same \<^verbatim>\<open>except Exception\<close>
  around the update.
\<close>

definition calculate_pricing_summary :: "runtime \<Rightarrow> row list \<Rightarrow> json \<Rightarrow> py_error + summary" where
  "calculate_pricing_summary rt rows query_type =
     (if rows = [] then Inr [(''total_records'', Count 0)]
      else
        (let summary =
               [(''total_records'', Count (length rows)),
                (''query_type'', Query_type query_type),
                (''timestamp'', Text (utcnow_isoformat rt))]
         in case summary_fields rows query_type of
              Inr entries \<Rightarrow> Inr (dict_update summary entries)
            | Inl e \<Rightarrow> if is_Exception e then Inr summary else Inl e))"

section \<open>The HTTP handler\<close>

text \<open>The four query builders, and the dict \<^verbatim>\<open>query_functions\<close> of the handler.\<close>

datatype query_builder =
  sql_competitor_tracking | sql_campaign_performance | sql_price_elasticity | sql_promotional_calendar

definition query_functions :: "(string \<times> query_builder) list" where
  "query_functions =
     [(''competitor_tracking'', sql_competitor_tracking),
      (''competitor_analysis'', sql_competitor_tracking),
      (''campaign_performance'', sql_campaign_performance),
      (''campaign_analysis'', sql_campaign_performance),
      (''price_elasticity'', sql_price_elasticity),
      (''price_optimization'', sql_price_elasticity),
      (''promotional_calendar'', sql_promotional_calendar),
      (''promotional_planning'', sql_promotional_calendar)]"

text \<open>\<^verbatim>\<open>body = request.get_json(silent=True) or {}\<close>\<close>

definition request_body :: "json \<Rightarrow> json" where
  "request_body request_json = (if truthy request_json then request_json else JObj [])"

text \<open>\<^verbatim>\<open>body.get(key, default)\<close>: only a dict has the method.\<close>

definition body_get :: "json \<Rightarrow> string \<Rightarrow> json \<Rightarrow> py_error + json" where
  "body_get body key dflt =
     (case body of
        JObj kvs \<Rightarrow> Inr (case map_of kvs key of None \<Rightarrow> dflt | Some v \<Rightarrow> v)
      | _ \<Rightarrow> Inl AttributeError)"

text \<open>
  \<^verbatim>\<open>query_type = body.get("query_type") or detect_query_intent(question)\<close>: the
  classifier runs only when the field is missing or falsy.
\<close>

definition resolve_query_type :: "runtime \<Rightarrow> json \<Rightarrow> json \<Rightarrow> py_error + json" where
  "resolve_query_type rt body question =
     bind_result (body_get body ''query_type'' JNull) (\<lambda>given.
       if truthy given then Inr given
       else bind_result (detect_query_intent rt question) (\<lambda>intent. Inr (JStr intent)))"

text \<open>\<^verbatim>\<open>limit = min(int(body.get("limit", 100)), 500)\<close>\<close>

definition effective_limit :: "runtime \<Rightarrow> json \<Rightarrow> py_error + int" where
  "effective_limit rt body =
     bind_result (body_get body ''limit'' (JInt 100)) (\<lambda>requested.
     bind_result (py_int rt requested) (\<lambda>n. Inr (min n 500)))"

text \<open>
  \<^verbatim>\<open>query_func = query_functions.get(query_type, sql_competitor_tracking)\<close>: a list or a
  dict is unhashable, and any other value that is not one of the keys gets the default.
\<close>

fun select_query_function :: "json \<Rightarrow> py_error + query_builder" where
  "select_query_function (JStr s) =
     Inr (case map_of query_functions s of None \<Rightarrow> sql_competitor_tracking | Some f \<Rightarrow> f)"
| "select_query_function (JArr xs) = Inl TypeError"
| "select_query_function (JObj kvs) = Inl TypeError"
| "select_query_function other = Inr sql_competitor_tracking"

text \<open>
  The warehouse is a parameter: given the query of a builder, the value of the parameter
  \<^verbatim>\<open>@limit\<close> and the query type put in the job's labels, it returns the rows and the job's
  metadata, or raises.
\<close>

type_synonym 'm warehouse = "query_builder \<Rightarrow> int \<Rightarrow> json \<Rightarrow> py_error + (row list \<times> 'm)"

text \<open>The two response dicts (before \<^verbatim>\<open>json.dumps\<close>).\<close>

record 'm success_response =
  ok_success :: bool
  ok_agent :: string
  ok_query_type :: json
  ok_limit :: int
  ok_summary :: summary
  ok_insights :: "message list"
  ok_recommendations :: "message list"
  ok_alerts :: "message list"
  ok_row_count :: nat
  ok_rows :: "row list"
  ok_metadata :: 'm

record error_response =
  err_success :: bool
  err_exception :: py_error
  err_error_type :: string
  err_agent :: string
  err_query_type :: json

datatype 'm response = Success "'m success_response" | Failure error_response

text \<open>
  The \<^verbatim>\<open>try\<close> block of \<^verbatim>\<open>pricing_intel_query\<close>. An exception comes with the value of
  \<^verbatim>\<open>query_type\<close> if the variable was bound when it was raised.
\<close>

definition raised_with :: "json option \<Rightarrow> py_error + 'a \<Rightarrow> (py_error \<times> json option) + 'a" where
  "raised_with bound m = (case m of Inl e \<Rightarrow> Inl (e, bound) | Inr v \<Rightarrow> Inr v)"

definition handler_try ::
  "runtime \<Rightarrow> 'm warehouse \<Rightarrow> json \<Rightarrow> (py_error \<times> json option) + 'm success_response" where
  "handler_try rt warehouse request_json =
     (let body = request_body request_json in
      bind_result (raised_with None (body_get body ''question'' (JStr []))) (\<lambda>question.
      bind_result (raised_with None (resolve_query_type rt body question)) (\<lambda>query_type.
      bind_result (raised_with (Some query_type) (effective_limit rt body)) (\<lambda>limit.
      bind_result (raised_with (Some query_type) (select_query_function query_type)) (\<lambda>query_func.
      bind_result (raised_with (Some query_type) (warehouse query_func limit query_type))
        (\<lambda>(rows, metadata).
      bind_result (raised_with (Some query_type) (analyze_pricing_results rt rows query_type))
        (\<lambda>analysis.
      bind_result (raised_with (Some query_type) (calculate_pricing_summary rt rows query_type))
        (\<lambda>summary.
        Inr \<lparr>ok_success = True, ok_agent = ''pricing_intel'', ok_query_type = query_type,
             ok_limit = limit, ok_summary = summary, ok_insights = insights analysis,
             ok_recommendations = recommendations analysis, ok_alerts = alerts analysis,
             ok_row_count = length rows, ok_rows = rows, ok_metadata = metadata\<rparr>))))))))"

text \<open>
  \<^verbatim>\<open>pricing_intel_query(request)\<close>: the response dict and the HTTP status. The handler's
  \<^verbatim>\<open>except Exception\<close> builds the failure envelope; \<open>Inl\<close> is an exception that leaves
  the function.
\<close>

definition pricing_intel_query ::
  "runtime \<Rightarrow> 'm warehouse \<Rightarrow> json \<Rightarrow> py_error + ('m response \<times> nat)" where
  "pricing_intel_query rt warehouse request_json =
     (case handler_try rt warehouse request_json of
        Inr response \<Rightarrow> Inr (Success response, 200)
      | Inl (e, bound) \<Rightarrow>
          if is_Exception e then
            Inr (Failure \<lparr>err_success = False, err_exception = e, err_error_type = class_name e,
                          err_agent = ''pricing_intel'',
                          err_query_type = (case bound of None \<Rightarrow> JStr ''unknown'' | Some q \<Rightarrow> q)\<rparr>,
                 500)
          else Inl e)"

section \<open>Notions used to state the properties\<close>

subsection \<open>The classifier, in the words of the specification\<close>

text \<open>
  The keyword groups of each category, every group written out as the list of its alternative
  terms, in the fixed priority order of the categories.
\<close>

definition keyword_table :: "(string \<times> string list list) list" where
  "keyword_table =
    [(''competitor_tracking'',
        [[''competitor'', ''rakip'', ''competition''],
         [''price'', ''fiyat'', ''pricing''],
         [''market'', ''pazar''],
         [''positioning'', ''konum''],
         [''comparison'',
          ''kar'' @ s_cedilla @ dotless_i @ ''la'' @ s_cedilla @ ''t'' @ dotless_i @ ''rma''],
         [''advantage'', ''avantaj'']]),
     (''campaign_performance'',
        [[''campaign'', ''kampanya'', ''promotion''],
         [''roi'', ''kar'', ''return''],
         [''marketing'', ''pazarlama''],
         [''discount'', ''indirim''],
         [''performance'', ''ba'' @ s_cedilla @ ''ar'' @ dotless_i],
         [''effectiveness'', ''etkinlik'']]),
     (''price_elasticity'',
        [[''elasticity'', ''elastikiyet'', ''optimization''],
         [''optimal'', ''optimum''],
         [''demand'', ''talep''],
         [''sensitivity'', ''hassasiyet''],
         [''revenue'', ''gelir''],
         [''margin'', ''kar'']]),
     (''promotional_calendar'',
        [[''calendar'', ''takvim'', ''schedule''],
         [''planning'', ''planlama''],
         [''future'', ''gelecek''],
         [''budget'', ''b'' @ u_umlaut @ ''t'' @ c_cedilla @ ''e''],
         [''timeline'', ''zaman''],
         [''seasonal'', ''mevsimsel'']])]"

text \<open>
  A keyword group matches if the lower-cased question contains any one of its alternative
  terms; a category matches if any of its groups matches; categories are tested in the fixed
  order of the table and the first matching one wins, with competitor tracking the default.
  Containment is \<open>sublist\<close>: the term occurs as a contiguous block.
\<close>

definition group_matches :: "string \<Rightarrow> string list \<Rightarrow> bool" where
  "group_matches q alternatives = (\<exists>w \<in> set alternatives. sublist w q)"

definition category_matches :: "string \<Rightarrow> string \<times> string list list \<Rightarrow> bool" where
  "category_matches q c = (\<exists>g \<in> set (snd c). group_matches q g)"

definition first_matching_category :: "string \<Rightarrow> string" where
  "first_matching_category q =
     (case find (category_matches q) keyword_table of
        None \<Rightarrow> ''competitor_tracking'' | Some c \<Rightarrow> fst c)"

subsection \<open>The builder a request reaches\<close>

text \<open>
  The builder that lines 803, 804 and 822 select for a body, and the one that classifying a
  question selects.
\<close>

definition invoked_builder :: "runtime \<Rightarrow> json \<Rightarrow> py_error + query_builder" where
  "invoked_builder rt body =
     bind_result (body_get body ''question'' (JStr [])) (\<lambda>question.
     bind_result (resolve_query_type rt body question) select_query_function)"

definition classified_builder :: "runtime \<Rightarrow> json \<Rightarrow> py_error + query_builder" where
  "classified_builder rt question =
     bind_result (detect_query_intent rt question) (\<lambda>intent. select_query_function (JStr intent))"

subsection \<open>The label rule behind a text\<close>







subsection \<open>The exceptions the operators raise\<close>

fun benign :: "py_error \<Rightarrow> bool" where
  "benign TypeError = True"
| "benign ValueError = True"
| "benign KeyError = True"
| "benign ZeroDivisionError = True"
| "benign e = False"

subsection \<open>A runtime and a warehouse for concrete inputs\<close>

text \<open>
  An instance of the runtime, exact on ASCII text: lower-casing of the letters A to Z, and the
  integers written as an optional sign and decimal digits. The warehouse returns given rows
  and, as metadata, the builder and the limit it was called with.
\<close>

definition ascii_lower :: "string \<Rightarrow> string" where
  "ascii_lower s =
     map (\<lambda>c. if 65 \<le> (of_char c :: nat) \<and> (of_char c :: nat) \<le> 90
              then char_of (of_char c + (32 :: nat)) else c) s"

definition is_digit :: "char \<Rightarrow> bool" where
  "is_digit c = (48 \<le> (of_char c :: nat) \<and> (of_char c :: nat) \<le> 57)"

definition digits_value :: "string \<Rightarrow> int" where
  "digits_value ds = foldl (\<lambda>v c. 10 * v + (int (of_char c) - 48)) 0 ds"

definition decimal_digits :: "string \<Rightarrow> int option" where
  "decimal_digits ds = (if ds \<noteq> [] \<and> list_all is_digit ds then Some (digits_value ds) else None)"

fun decimal_int :: "string \<Rightarrow> int option" where
  "decimal_int (c # cs) =
     (if c = CHR ''-'' then map_option uminus (decimal_digits cs)
      else if c = CHR ''+'' then decimal_digits cs
      else decimal_digits (c # cs))"
| "decimal_int [] = None"

definition example_runtime :: runtime where
  "example_runtime =
     \<lparr>str_lower = ascii_lower, int_of_str = decimal_int,
      float_str = (\<lambda>x. int_str \<lfloor>x\<rfloor> @ ''.0''),
      utcnow_isoformat = ''2024-12-15T00:00:00''\<rparr>"

definition echo_warehouse :: "row list \<Rightarrow> (query_builder \<times> int) warehouse" where
  "echo_warehouse rows query_func limit query_type = Inr (rows, (query_func, limit))"

text \<open>
  Rows for concrete inputs: a planned campaign with a budget and no label; a competitor row
  labelled as a strong price advantage; a campaign row labelled as an excellent return that has
  no campaign name and whose revenue is a text.
\<close>

definition budget_only_rows :: "row list" where
  "budget_only_rows = [[(''budget_usd'', CInt 100)]]"


definition degraded_rows :: "row list" where
  "degraded_rows =
     [[(''campaign_performance_tier'', CStr (emoji_trophy @ '' Excellent Campaign ROI'')),
       (''revenue_generated'', CStr ''n/a'')]]"

text \<open>
  A competitor row labelled as a price disadvantage whose price gap is a text: the label rules
  append an alert and a recommendation, and then the average of the gaps raises.
\<close>

definition interrupted_rows :: "row list" where
  "interrupted_rows =
     [[(''competitive_position'', CStr (emoji_red_circle @ '' Price Disadvantage'')),
       (''price_gap_pct'', CStr ''n/a'')]]"

section \<open>Verified properties\<close>

subsection \<open>The competitive position label\<close>

text \<open>
  C6: in the competitor tracking labelling, a row with \<open>price_gap_pct = -31\<close> and
  \<open>market_share_impact = "Very Positive"\<close> gets the label of the first matching branch,
  "Dominant Market Position", and not "Strong Price Advantage", although the condition of
  that later, broader branch holds for the row as well.
\<close>

theorem C6_dominant_market_position_first:
  "competitive_position (Some (- 31)) (Some ''Very Positive'')
     = emoji_trophy @ '' Dominant Market Position''
   \<and> competitive_position (Some (- 31)) (Some ''Very Positive'')
     \<noteq> emoji_money_bag @ '' Strong Price Advantage''
   \<and> sql_and (sql_le (Some (- 31)) (Some PRICE_ADVANTAGE_THRESHOLD))
        (sql_in (Some ''Very Positive'') [''Positive'', ''Very Positive'']) = Some True"
  by (simp add: competitive_position_def sql_and_def sql_le_def sql_eq_def sql_or_def
      PRICE_ADVANTAGE_THRESHOLD_def emoji_trophy_def emoji_money_bag_def)

subsection \<open>Insight synthesis on an empty result\<close>

text \<open>
  C3: for every query type, \<open>analyze_pricing_results\<close> applied to an empty row list returns
  exactly one insight (the fixed "no data found" text), exactly one recommendation (the fixed
  generic one) and no alert.
\<close>

theorem C3_empty_rows_fixed_fallback:
  "analyze_pricing_results rt [] query_type =
     Inr \<lparr>insights = [Fixed No_data_found], recommendations = [Fixed Widen_criteria], alerts = []\<rparr>
   \<and> (\<exists>a. analyze_pricing_results rt [] query_type = Inr a \<and> length (insights a) = 1
          \<and> length (recommendations a) = 1 \<and> length (alerts a) = 0)"
  by (simp add: analyze_pricing_results_def)

subsection \<open>Exceptions of the operators\<close>

text \<open>
  Every exception that the operators, and so the statements of the two \<^verbatim>\<open>try\<close> blocks,
  can raise is an \<open>Exception\<close>.
\<close>

lemma bind_result_Inl: "bind_result m f = Inl e \<Longrightarrow> m = Inl e \<or> (\<exists>v. m = Inr v \<and> f v = Inl e)"
  by (cases m) (simp_all add: bind_result_def)

lemma benign_is_Exception: "benign e \<Longrightarrow> is_Exception e"
  by (cases e) simp_all

lemma py_add_benign: "py_add x y = Inl e \<Longrightarrow> benign e"
  by (cases "(x, y)" rule: py_add.cases) auto

lemma py_sub_benign: "py_sub x y = Inl e \<Longrightarrow> benign e"
  by (cases "(x, y)" rule: py_sub.cases) auto

lemma py_mul_benign: "py_mul x y = Inl e \<Longrightarrow> benign e"
  by (cases "(x, y)" rule: py_mul.cases) auto

lemma py_truediv_benign: "py_truediv x y = Inl e \<Longrightarrow> benign e"
  by (auto simp: py_truediv_def split: option.splits if_splits)

lemma py_abs_benign: "py_abs x = Inl e \<Longrightarrow> benign e"
  by (cases x) auto

lemma py_lt_benign: "py_lt x y = Inl e \<Longrightarrow> benign e"
  by (cases "(x, y)" rule: py_lt.cases) (auto split: option.splits)

lemma py_gt_benign: "py_gt x y = Inl e \<Longrightarrow> benign e"
  unfolding py_gt_def by (rule py_lt_benign)

lemma py_le_benign: "py_le x y = Inl e \<Longrightarrow> benign e"
  by (cases "(x, y)" rule: py_le.cases) (auto split: option.splits)

lemma py_sum_benign: "py_sum t xs = Inl e \<Longrightarrow> benign e"
  by (induction xs arbitrary: t) (auto dest!: bind_result_Inl dest: py_add_benign)

lemma sum_column_benign: "sum_column c rows = Inl e \<Longrightarrow> benign e"
  unfolding sum_column_def by (rule py_sum_benign)

lemma mean_column_benign: "mean_column c rows = Inl e \<Longrightarrow> benign e"
  by (auto simp: mean_column_def split: if_splits dest!: bind_result_Inl
      dest: sum_column_benign py_truediv_benign)

lemma py_max_from_benign: "py_max_from f b xs = Inl e \<Longrightarrow> benign e"
  by (induction xs arbitrary: b) (auto dest!: bind_result_Inl dest: py_gt_benign)

lemma py_max_benign: "py_max f xs = Inl e \<Longrightarrow> benign e"
  by (cases xs) (auto dest: py_max_from_benign)

lemma row_index_benign: "row_index r k = Inl e \<Longrightarrow> benign e"
  by (auto simp: row_index_def split: option.splits)

lemma py_filter_benign:
  "(\<And>r e. cond r = Inl e \<Longrightarrow> benign e) \<Longrightarrow> py_filter cond rs = Inl e \<Longrightarrow> benign e"
  by (induction rs arbitrary: e) (auto dest!: bind_result_Inl)

lemma py_filter_le_benign: "py_filter (\<lambda>r. py_le (f r) c) rs = Inl e \<Longrightarrow> benign e"
  by (erule py_filter_benign [rotated]) (rule py_le_benign)

lemma average_gap_insight_benign: "average_gap_insight gaps = Inl e \<Longrightarrow> benign e"
  by (auto simp: average_gap_insight_def simp del: py_lt.simps split: if_splits dest!: bind_result_Inl
      dest: py_sum_benign py_truediv_benign py_lt_benign py_gt_benign py_abs_benign)

lemma top_campaign_insight_benign: "top_campaign_insight xs = Inl e \<Longrightarrow> benign e"
  by (auto simp: top_campaign_insight_def split: if_splits dest!: bind_result_Inl
      dest: py_max_benign row_index_benign)

lemma overall_roi_insight_benign: "overall_roi_insight rows = Inl e \<Longrightarrow> benign e"
  by (auto simp: overall_roi_insight_def simp del: py_lt.simps py_sub.simps py_mul.simps split: if_splits dest!: bind_result_Inl
      dest: sum_column_benign py_truediv_benign py_gt_benign py_sub_benign py_mul_benign)

lemma summary_fields_benign: "summary_fields rows qt = Inl e \<Longrightarrow> benign e"
  by (auto simp: summary_fields_def simp del: py_le.simps split: if_splits dest!: bind_result_Inl
      dest: sum_column_benign mean_column_benign py_filter_le_benign)

subsection \<open>Invariant of the statements: every text is justified\<close>

















subsection \<open>The try block raises nothing but exceptions that are caught\<close>

lemma run_steps_benign:
  "(\<And>s a a' e. s \<in> set steps \<Longrightarrow> s a = (a', Some e) \<Longrightarrow> benign e)
     \<Longrightarrow> run_steps steps a = (a', Some e) \<Longrightarrow> benign e"
proof (induction steps arbitrary: a)
  case Nil
  then show ?case by simp
next
  case (Cons s ss)
  obtain b x where sa: "s a = (b, x)" by (cases "s a")
  show ?case
  proof (cases x)
    case None
    with sa Cons.prems(2) have "run_steps ss b = (a', Some e)" by simp
    with Cons.IH Cons.prems(1) show ?thesis by (meson list.set_intros(2))
  next
    case (Some e')
    with sa Cons.prems(2) have "e' = e" by simp
    with sa Some Cons.prems(1) [of s a b e] show ?thesis by simp
  qed
qed

lemma when_any_no_raise: "when_any matched f a = (a', Some e) \<Longrightarrow> False"
  by (simp add: when_any_def)

lemma computed_insight_raise: "computed_insight c a = (a', Some e) \<Longrightarrow> c = Inl e"
  by (auto simp: computed_insight_def split: sum.splits option.splits)

lemma competitor_tracking_benign:
  "s \<in> set (analyze_competitor_tracking rt rows) \<Longrightarrow> s a = (a', Some e) \<Longrightarrow> benign e"
  unfolding analyze_competitor_tracking_def Let_def
  by (auto dest: when_any_no_raise dest!: computed_insight_raise dest: average_gap_insight_benign)

lemma campaign_performance_benign:
  "s \<in> set (analyze_campaign_performance rt rows) \<Longrightarrow> s a = (a', Some e) \<Longrightarrow> benign e"
  unfolding analyze_campaign_performance_def Let_def
  by (auto dest: when_any_no_raise dest!: computed_insight_raise
      dest: top_campaign_insight_benign overall_roi_insight_benign)

lemma price_elasticity_benign:
  "s \<in> set (analyze_price_elasticity rt rows) \<Longrightarrow> s a = (a', Some e) \<Longrightarrow> benign e"
  unfolding analyze_price_elasticity_def Let_def
  by (auto dest: when_any_no_raise)

lemma promotional_calendar_benign:
  "s \<in> set (analyze_promotional_calendar rt rows) \<Longrightarrow> s a = (a', Some e) \<Longrightarrow> benign e"
  unfolding analyze_promotional_calendar_def Let_def
  by (auto dest: when_any_no_raise dest!: computed_insight_raise bind_result_Inl
      dest: sum_column_benign)

lemma analysis_statements_benign:
  "s \<in> set (analysis_statements rt rows qt) \<Longrightarrow> s a = (a', Some e) \<Longrightarrow> benign e"
  unfolding analysis_statements_def
  by (auto split: if_splits dest: competitor_tracking_benign campaign_performance_benign
      price_elasticity_benign promotional_calendar_benign)

lemma try_block_benign: "try_block rt rows qt = (a, Some e) \<Longrightarrow> benign e"
  unfolding try_block_def by (erule run_steps_benign [rotated]) (rule analysis_statements_benign)

lemma run_steps_interrupted:
  "k < length ss \<Longrightarrow> run_steps (take k ss) a0 = (a, None) \<Longrightarrow> (ss ! k) a = (a', Some e)
     \<Longrightarrow> run_steps ss a0 = (a', Some e)"
proof (induction ss arbitrary: k a0)
  case Nil
  then show ?case by simp
next
  case (Cons s ss)
  show ?case
  proof (cases k)
    case 0
    with Cons.prems show ?thesis by simp
  next
    case (Suc j)
    obtain b x where sa: "s a0 = (b, x)" by (cases "s a0")
    from Cons.prems(2) Suc sa have x: "x = None"
      by (cases x) simp_all
    from Cons.prems(1) Suc have "j < length ss" by simp
    moreover from x Cons.prems(2) Suc sa have "run_steps (take j ss) b = (a, None)" by simp
    moreover from Cons.prems(3) Suc have "(ss ! j) a = (a', Some e)" by simp
    ultimately have "run_steps ss b = (a', Some e)" by (rule Cons.IH)
    with sa x show ?thesis by simp
  qed
qed

lemma computed_insight_raise_state: "computed_insight c a = (a', Some e) \<Longrightarrow> a' = a"
  by (auto simp: computed_insight_def split: sum.splits option.splits)

lemma analysis_statements_raise_state:
  "s \<in> set (analysis_statements rt rows qt) \<Longrightarrow> s a = (a', Some e) \<Longrightarrow> a' = a"
  unfolding analysis_statements_def analyze_competitor_tracking_def
    analyze_campaign_performance_def analyze_price_elasticity_def
    analyze_promotional_calendar_def Let_def
  by (auto split: if_splits dest: when_any_no_raise computed_insight_raise_state)

lemma analyze_pricing_results_returns:
  "analyze_pricing_results rt rows qt =
     Inr (if rows = [] then
            \<lparr>insights = [Fixed No_data_found], recommendations = [Fixed Widen_criteria], alerts = []\<rparr>
          else truncated (fst (try_block rt rows qt)))"
proof (cases "try_block rt rows qt")
  case (Pair a x)
  then show ?thesis
    by (cases x) (auto simp: analyze_pricing_results_def dest: try_block_benign benign_is_Exception)
qed

subsection \<open>The summary and the handler after the warehouse\<close>

lemma analyze_pricing_results_interrupted:
  assumes "rows \<noteq> []" and "k < length (analysis_statements rt rows qt)"
    and "run_steps (take k (analysis_statements rt rows qt)) empty_analysis = (a, None)"
    and "(analysis_statements rt rows qt ! k) a = (a', Some e)"
  shows "a' = a \<and> analyze_pricing_results rt rows qt = Inr (truncated a)"
proof -
  from assms(2) have "analysis_statements rt rows qt ! k \<in> set (analysis_statements rt rows qt)"
    by simp
  from analysis_statements_raise_state [OF this assms(4)] have eq: "a' = a" .
  from run_steps_interrupted [OF assms(2,3,4)]
  have "try_block rt rows qt = (a', Some e)" by (simp add: try_block_def)
  with assms(1) eq show ?thesis
    by (simp add: analyze_pricing_results_returns)
qed

lemma map_of_fold_update_other:
  "k \<notin> fst ` set entries \<Longrightarrow>
     map_of (fold (\<lambda>(k', v). AList.update k' v) entries d) k = map_of d k"
  by (induction entries arbitrary: d) (auto simp: update_conv')

lemma summary_fields_keys:
  "summary_fields rows qt = Inr entries \<Longrightarrow> ''total_records'' \<notin> fst ` set entries"
  by (auto simp: summary_fields_def bind_result_def split: if_splits sum.splits)

lemma calculate_pricing_summary_returns:
  "calculate_pricing_summary rt rows qt =
     Inr (if rows = [] then [(''total_records'', Count 0)]
          else (case summary_fields rows qt of
                  Inr entries \<Rightarrow>
                    dict_update [(''total_records'', Count (length rows)),
                                 (''query_type'', Query_type qt),
                                 (''timestamp'', Text (utcnow_isoformat rt))] entries
                | Inl e \<Rightarrow>
                    [(''total_records'', Count (length rows)),
                     (''query_type'', Query_type qt),
                     (''timestamp'', Text (utcnow_isoformat rt))]))"
  by (auto simp: calculate_pricing_summary_def Let_def split: sum.splits
      dest: summary_fields_benign benign_is_Exception)

lemma calculate_pricing_summary_total_records:
  "\<exists>s. calculate_pricing_summary rt rows qt = Inr s
     \<and> map_of s ''total_records'' = Some (Count (length rows))"
  unfolding calculate_pricing_summary_returns
  by (auto simp: dict_update_def map_of_fold_update_other split: sum.splits
      dest: summary_fields_keys)

lemma handler_success:
  assumes "body_get (request_body request_json) ''question'' (JStr []) = Inr question"
    and "resolve_query_type rt (request_body request_json) question = Inr qt"
    and "effective_limit rt (request_body request_json) = Inr limit"
    and "select_query_function qt = Inr qf"
    and "warehouse qf limit qt = Inr (rows, m)"
  shows "\<exists>r. pricing_intel_query rt warehouse request_json = Inr (Success r, 200)
           \<and> ok_rows r = rows \<and> ok_limit r = limit \<and> ok_query_type r = qt \<and> ok_metadata r = m
           \<and> analyze_pricing_results rt rows qt =
               Inr \<lparr>insights = ok_insights r, recommendations = ok_recommendations r,
                    alerts = ok_alerts r\<rparr>
           \<and> calculate_pricing_summary rt rows qt = Inr (ok_summary r)"
proof -
  obtain a where a: "analyze_pricing_results rt rows qt = Inr a"
    by (simp add: analyze_pricing_results_returns)
  obtain s where s: "calculate_pricing_summary rt rows qt = Inr s"
    by (simp add: calculate_pricing_summary_returns)
  show ?thesis
    using assms a s
    by (simp add: pricing_intel_query_def handler_try_def Let_def bind_result_def raised_with_def)
qed

subsection \<open>Insight synthesis and summary\<close>




text \<open>
  C8: for every row list and every query type, the result of \<open>analyze_pricing_results\<close> has
  at most 10 insights, 5 recommendations and 5 alerts, each the prefix of that length of the
  list the function appended to.
\<close>

theorem C8_bounded_prefixes:
  "\<exists>a. analyze_pricing_results rt rows query_type = Inr a
     \<and> length (insights a) \<le> 10 \<and> length (recommendations a) \<le> 5 \<and> length (alerts a) \<le> 5
     \<and> (rows \<noteq> [] \<longrightarrow>
          insights a = take 10 (insights (fst (try_block rt rows query_type)))
        \<and> recommendations a = take 5 (recommendations (fst (try_block rt rows query_type)))
        \<and> alerts a = take 5 (alerts (fst (try_block rt rows query_type))))"
  by (simp add: analyze_pricing_results_returns truncated_def)

theorem C8_witness:
  "budget_only_rows \<noteq> []
   \<and> (\<exists>a. analyze_pricing_results example_runtime budget_only_rows (JStr ''promotional_calendar'') = Inr a
        \<and> length (insights a) \<le> 10
        \<and> insights a = take 10 (insights (fst (try_block example_runtime budget_only_rows (JStr ''promotional_calendar''))))
        \<and> insights (fst (try_block example_runtime budget_only_rows (JStr ''promotional_calendar'')))
            = [Counted Total_high_impact 0, Valued Total_planned_budget [CInt 100]])"
proof -
  have ne: "budget_only_rows \<noteq> []" by (simp add: budget_only_rows_def)
  have ev: "insights (fst (try_block example_runtime budget_only_rows (JStr ''promotional_calendar'')))
            = [Counted Total_high_impact 0, Valued Total_planned_budget [CInt 100]]"
    by code_simp
  from C8_bounded_prefixes [of example_runtime budget_only_rows "JStr ''promotional_calendar''"] ne
  obtain a where "analyze_pricing_results example_runtime budget_only_rows (JStr ''promotional_calendar'') = Inr a"
    "length (insights a) \<le> 10"
    "insights a = take 10 (insights (fst (try_block example_runtime budget_only_rows (JStr ''promotional_calendar''))))"
    by blast
  with ne ev show ?thesis by blast
qed

text \<open>
  C7: for every row list and every query type, also with missing or malformed fields,
  \<open>analyze_pricing_results\<close> and \<open>calculate_pricing_summary\<close> return: an exception inside
  either \<^verbatim>\<open>try\<close> block is caught. If the first \<open>k\<close> statements of the analysis run to
  their end and the next one raises, the result is the lists as those \<open>k\<close> statements left
  them (truncated), the raising statement having appended nothing; the summary keeps its base
  entries with \<open>total_records\<close>; and so, once the warehouse has returned rows, the request
  succeeds with status 200.
\<close>

theorem C7_synthesis_and_summary_never_raise:
  "analyze_pricing_results rt rows query_type =
     Inr (if rows = [] then
            \<lparr>insights = [Fixed No_data_found], recommendations = [Fixed Widen_criteria], alerts = []\<rparr>
          else truncated (fst (try_block rt rows query_type)))
   \<and> (\<forall>k a a' e.
         rows \<noteq> [] \<and> k < length (analysis_statements rt rows query_type)
         \<and> run_steps (take k (analysis_statements rt rows query_type)) empty_analysis = (a, None)
         \<and> (analysis_statements rt rows query_type ! k) a = (a', Some e)
         \<longrightarrow> a' = a \<and> analyze_pricing_results rt rows query_type = Inr (truncated a))
   \<and> calculate_pricing_summary rt rows query_type =
     Inr (if rows = [] then [(''total_records'', Count 0)]
          else (case summary_fields rows query_type of
                  Inr entries \<Rightarrow>
                    dict_update [(''total_records'', Count (length rows)),
                                 (''query_type'', Query_type query_type),
                                 (''timestamp'', Text (utcnow_isoformat rt))] entries
                | Inl e \<Rightarrow>
                    [(''total_records'', Count (length rows)),
                     (''query_type'', Query_type query_type),
                     (''timestamp'', Text (utcnow_isoformat rt))]))
   \<and> (\<exists>s. calculate_pricing_summary rt rows query_type = Inr s
          \<and> map_of s ''total_records'' = Some (Count (length rows)))
   \<and> (\<forall>question limit query_func metadata.
         body_get (request_body request_json) ''question'' (JStr []) = Inr question
         \<and> resolve_query_type rt (request_body request_json) question = Inr query_type
         \<and> effective_limit rt (request_body request_json) = Inr limit
         \<and> select_query_function query_type = Inr query_func
         \<and> warehouse query_func limit query_type = Inr (rows, metadata)
         \<longrightarrow> (\<exists>r. pricing_intel_query rt warehouse request_json = Inr (Success r, 200)
                \<and> ok_rows r = rows
                \<and> analyze_pricing_results rt rows query_type =
                    Inr \<lparr>insights = ok_insights r, recommendations = ok_recommendations r,
                         alerts = ok_alerts r\<rparr>
                \<and> calculate_pricing_summary rt rows query_type = Inr (ok_summary r)))"
proof (intro conjI allI impI)
  show "analyze_pricing_results rt rows query_type =
     Inr (if rows = [] then
            \<lparr>insights = [Fixed No_data_found], recommendations = [Fixed Widen_criteria], alerts = []\<rparr>
          else truncated (fst (try_block rt rows query_type)))"
    by (rule analyze_pricing_results_returns)
next
  fix k a a' e
  assume h: "rows \<noteq> [] \<and> k < length (analysis_statements rt rows query_type)
         \<and> run_steps (take k (analysis_statements rt rows query_type)) empty_analysis = (a, None)
         \<and> (analysis_statements rt rows query_type ! k) a = (a', Some e)"
  then have h1: "rows \<noteq> []" and h2: "k < length (analysis_statements rt rows query_type)"
    and h3: "run_steps (take k (analysis_statements rt rows query_type)) empty_analysis = (a, None)"
    and h4: "(analysis_statements rt rows query_type ! k) a = (a', Some e)"
    by simp_all
  from analyze_pricing_results_interrupted [OF h1 h2 h3 h4]
  show "a' = a" and "analyze_pricing_results rt rows query_type = Inr (truncated a)"
    by simp_all
next
  show "calculate_pricing_summary rt rows query_type =
     Inr (if rows = [] then [(''total_records'', Count 0)]
          else (case summary_fields rows query_type of
                  Inr entries \<Rightarrow>
                    dict_update [(''total_records'', Count (length rows)),
                                 (''query_type'', Query_type query_type),
                                 (''timestamp'', Text (utcnow_isoformat rt))] entries
                | Inl e \<Rightarrow>
                    [(''total_records'', Count (length rows)),
                     (''query_type'', Query_type query_type),
                     (''timestamp'', Text (utcnow_isoformat rt))]))"
    by (rule calculate_pricing_summary_returns)
next
  show "\<exists>s. calculate_pricing_summary rt rows query_type = Inr s
          \<and> map_of s ''total_records'' = Some (Count (length rows))"
    by (rule calculate_pricing_summary_total_records)
next
  fix question limit query_func metadata
  assume "body_get (request_body request_json) ''question'' (JStr []) = Inr question
         \<and> resolve_query_type rt (request_body request_json) question = Inr query_type
         \<and> effective_limit rt (request_body request_json) = Inr limit
         \<and> select_query_function query_type = Inr query_func
         \<and> warehouse query_func limit query_type = Inr (rows, metadata)"
  then have h1: "body_get (request_body request_json) ''question'' (JStr []) = Inr question"
    and h2: "resolve_query_type rt (request_body request_json) question = Inr query_type"
    and h3: "effective_limit rt (request_body request_json) = Inr limit"
    and h4: "select_query_function query_type = Inr query_func"
    and h5: "warehouse query_func limit query_type = Inr (rows, metadata)"
    by simp_all
  from handler_success [where warehouse = warehouse, OF h1 h2 h3 h4 h5]
  show "\<exists>r. pricing_intel_query rt warehouse request_json = Inr (Success r, 200)
                \<and> ok_rows r = rows
                \<and> analyze_pricing_results rt rows query_type =
                    Inr \<lparr>insights = ok_insights r, recommendations = ok_recommendations r,
                         alerts = ok_alerts r\<rparr>
                \<and> calculate_pricing_summary rt rows query_type = Inr (ok_summary r)"
    by blast
qed

text \<open>
  At \<open>interrupted_rows\<close> the first four statements of the competitor tracking branch append
  an alert and a recommendation, the fifth raises \<open>TypeError\<close>, and the alert and the
  recommendation are returned; the request answers 200 with them. At \<open>degraded_rows\<close> the
  first statement raises and the summary's update raises.
\<close>

theorem C7_witness:
  "(interrupted_rows \<noteq> []
     \<and> 4 < length (analysis_statements example_runtime interrupted_rows (JStr ''competitor_tracking''))
     \<and> run_steps (take 4 (analysis_statements example_runtime interrupted_rows (JStr ''competitor_tracking'')))
          empty_analysis
        = (\<lparr>insights = [], recommendations = [Fixed Revise_disadvantaged_categories],
             alerts = [Counted Price_disadvantages 1]\<rparr>, None)
     \<and> (analysis_statements example_runtime interrupted_rows (JStr ''competitor_tracking'') ! 4)
          \<lparr>insights = [], recommendations = [Fixed Revise_disadvantaged_categories],
            alerts = [Counted Price_disadvantages 1]\<rparr>
        = (\<lparr>insights = [], recommendations = [Fixed Revise_disadvantaged_categories],
             alerts = [Counted Price_disadvantages 1]\<rparr>, Some TypeError))
   \<and> analyze_pricing_results example_runtime interrupted_rows (JStr ''competitor_tracking'')
       = Inr \<lparr>insights = [], recommendations = [Fixed Revise_disadvantaged_categories],
              alerts = [Counted Price_disadvantages 1]\<rparr>
   \<and> (\<exists>r. pricing_intel_query example_runtime (echo_warehouse interrupted_rows)
             (JObj [(''query_type'', JStr ''competitor_tracking'')]) = Inr (Success r, 200)
        \<and> ok_rows r = interrupted_rows
        \<and> ok_insights r = [] \<and> ok_recommendations r = [Fixed Revise_disadvantaged_categories]
        \<and> ok_alerts r = [Counted Price_disadvantages 1])
   \<and> try_block example_runtime degraded_rows (JStr ''campaign_performance'') = (empty_analysis, Some KeyError)
   \<and> summary_fields degraded_rows (JStr ''campaign_performance'') = Inl TypeError
   \<and> (\<exists>r. pricing_intel_query example_runtime (echo_warehouse degraded_rows)
             (JObj [(''query_type'', JStr ''campaign_performance'')]) = Inr (Success r, 200)
        \<and> ok_rows r = degraded_rows
        \<and> analyze_pricing_results example_runtime degraded_rows (JStr ''campaign_performance'') =
             Inr \<lparr>insights = ok_insights r, recommendations = ok_recommendations r, alerts = ok_alerts r\<rparr>
        \<and> calculate_pricing_summary example_runtime degraded_rows (JStr ''campaign_performance'') = Inr (ok_summary r))"
proof -
  let ?kept = "\<lparr>insights = [], recommendations = [Fixed Revise_disadvantaged_categories],
             alerts = [Counted Price_disadvantages 1]\<rparr>"
  have i1: "interrupted_rows \<noteq> []" by (simp add: interrupted_rows_def)
  have i2: "4 < length (analysis_statements example_runtime interrupted_rows (JStr ''competitor_tracking''))"
    by (simp add: analysis_statements_def analyze_competitor_tracking_def Let_def)
  have i3: "run_steps (take 4 (analysis_statements example_runtime interrupted_rows (JStr ''competitor_tracking'')))
          empty_analysis = (?kept, None)"
    by code_simp
  have i4: "(analysis_statements example_runtime interrupted_rows (JStr ''competitor_tracking'') ! 4) ?kept
        = (?kept, Some TypeError)"
    by code_simp
  have tr: "truncated ?kept = ?kept" by (simp add: truncated_def)
  from C7_synthesis_and_summary_never_raise [where rt = example_runtime and rows = interrupted_rows
      and query_type = "JStr ''competitor_tracking''"
      and request_json = "JObj [(''query_type'', JStr ''competitor_tracking'')]"
      and warehouse = "echo_warehouse interrupted_rows"] i1 i2 i3 i4
  have "analyze_pricing_results example_runtime interrupted_rows (JStr ''competitor_tracking'')
       = Inr (truncated ?kept)"
    by blast
  with tr have kept: "analyze_pricing_results example_runtime interrupted_rows (JStr ''competitor_tracking'')
       = Inr ?kept" by simp
  have pre1: "body_get (request_body (JObj [(''query_type'', JStr ''competitor_tracking'')])) ''question'' (JStr []) = Inr (JStr [])
         \<and> resolve_query_type example_runtime (request_body (JObj [(''query_type'', JStr ''competitor_tracking'')])) (JStr []) = Inr (JStr ''competitor_tracking'')
         \<and> effective_limit example_runtime (request_body (JObj [(''query_type'', JStr ''competitor_tracking'')])) = Inr 100
         \<and> select_query_function (JStr ''competitor_tracking'') = Inr sql_competitor_tracking
         \<and> echo_warehouse interrupted_rows sql_competitor_tracking 100 (JStr ''competitor_tracking'') = Inr (interrupted_rows, (sql_competitor_tracking, 100))"
    by code_simp
  from C7_synthesis_and_summary_never_raise [where rt = example_runtime and rows = interrupted_rows
      and query_type = "JStr ''competitor_tracking''"
      and request_json = "JObj [(''query_type'', JStr ''competitor_tracking'')]"
      and warehouse = "echo_warehouse interrupted_rows"] pre1
  have "\<exists>r. pricing_intel_query example_runtime (echo_warehouse interrupted_rows)
             (JObj [(''query_type'', JStr ''competitor_tracking'')]) = Inr (Success r, 200)
        \<and> ok_rows r = interrupted_rows
        \<and> analyze_pricing_results example_runtime interrupted_rows (JStr ''competitor_tracking'') =
             Inr \<lparr>insights = ok_insights r, recommendations = ok_recommendations r, alerts = ok_alerts r\<rparr>"
    by blast
  with kept have resp1: "\<exists>r. pricing_intel_query example_runtime (echo_warehouse interrupted_rows)
             (JObj [(''query_type'', JStr ''competitor_tracking'')]) = Inr (Success r, 200)
        \<and> ok_rows r = interrupted_rows
        \<and> ok_insights r = [] \<and> ok_recommendations r = [Fixed Revise_disadvantaged_categories]
        \<and> ok_alerts r = [Counted Price_disadvantages 1]"
    by auto
  have ev1: "try_block example_runtime degraded_rows (JStr ''campaign_performance'') = (empty_analysis, Some KeyError)"
    by code_simp
  have ev2: "summary_fields degraded_rows (JStr ''campaign_performance'') = Inl TypeError"
    by code_simp
  have pre: "body_get (request_body (JObj [(''query_type'', JStr ''campaign_performance'')])) ''question'' (JStr []) = Inr (JStr [])
         \<and> resolve_query_type example_runtime (request_body (JObj [(''query_type'', JStr ''campaign_performance'')])) (JStr []) = Inr (JStr ''campaign_performance'')
         \<and> effective_limit example_runtime (request_body (JObj [(''query_type'', JStr ''campaign_performance'')])) = Inr 100
         \<and> select_query_function (JStr ''campaign_performance'') = Inr sql_campaign_performance
         \<and> echo_warehouse degraded_rows sql_campaign_performance 100 (JStr ''campaign_performance'') = Inr (degraded_rows, (sql_campaign_performance, 100))"
    by code_simp
  from C7_synthesis_and_summary_never_raise [where rt = example_runtime and rows = degraded_rows
      and query_type = "JStr ''campaign_performance''"
      and request_json = "JObj [(''query_type'', JStr ''campaign_performance'')]"
      and warehouse = "echo_warehouse degraded_rows"] pre
  have resp2: "\<exists>r. pricing_intel_query example_runtime (echo_warehouse degraded_rows)
             (JObj [(''query_type'', JStr ''campaign_performance'')]) = Inr (Success r, 200)
        \<and> ok_rows r = degraded_rows
        \<and> analyze_pricing_results example_runtime degraded_rows (JStr ''campaign_performance'') =
             Inr \<lparr>insights = ok_insights r, recommendations = ok_recommendations r, alerts = ok_alerts r\<rparr>
        \<and> calculate_pricing_summary example_runtime degraded_rows (JStr ''campaign_performance'') = Inr (ok_summary r)"
    by blast
  from i1 i2 i3 i4 kept resp1 ev1 ev2 resp2 show ?thesis by blast
qed

subsection \<open>The classifier\<close>

lemma str_contains_sublist: "str_contains q w = sublist w q"
  by (induction q) (auto simp: sublist_Cons_right)

lemma pattern_matches_group:
  "pattern_matches q pattern = group_matches q (split_on CHR ''|'' pattern)"
  by (simp add: pattern_matches_def group_matches_def list_ex_iff str_contains_sublist)

lemma scan_patterns_find:
  "scan_patterns q ps =
     (case find (category_matches q)
             (map (\<lambda>(intent, pattern_list). (intent, map (split_on CHR ''|'') pattern_list)) ps) of
        None \<Rightarrow> ''competitor_tracking'' | Some c \<Rightarrow> fst c)"
  by (induction q ps rule: scan_patterns.induct)
     (simp_all add: category_matches_def list_ex_iff pattern_matches_group)

lemma patterns_split:
  "map (\<lambda>(intent, pattern_list). (intent, map (split_on CHR ''|'') pattern_list)) patterns
     = keyword_table"
  by (simp add: patterns_def keyword_table_def s_cedilla_def dotless_i_def u_umlaut_def
      c_cedilla_def)

lemma scan_patterns_default_or_key:
  "scan_patterns q ps = ''competitor_tracking'' \<or> scan_patterns q ps \<in> fst ` set ps"
  by (induction q ps rule: scan_patterns.induct) auto

lemma scan_patterns_builder_key:
  "scan_patterns q patterns \<in>
     {''competitor_tracking'', ''campaign_performance'', ''price_elasticity'', ''promotional_calendar''}"
  using scan_patterns_default_or_key [of q patterns] by (auto simp: patterns_def)

lemma scan_patterns_empty: "scan_patterns [] patterns = ''competitor_tracking''"
  by code_simp

lemma detect_query_intent_str:
  "detect_query_intent rt (JStr s) = Inr (scan_patterns (str_lower rt s) patterns)"
  by (cases "s = []") (simp_all add: detect_query_intent_def)

lemma detect_query_intent_result:
  "detect_query_intent rt question = Inr c \<Longrightarrow>
     c \<in> {''competitor_tracking'', ''campaign_performance'', ''price_elasticity'', ''promotional_calendar''}"
  using scan_patterns_builder_key
  by (auto simp: detect_query_intent_def split: if_splits json.splits)

lemma builder_key_lookup:
  "c \<in> {''competitor_tracking'', ''campaign_performance'', ''price_elasticity'', ''promotional_calendar''}
     \<Longrightarrow> \<exists>f. map_of query_functions c = Some f \<and> select_query_function (JStr c) = Inr f"
  by (auto simp: query_functions_def)


lemma body_get_obj: "body_get (JObj kvs) key dflt = Inr (case map_of kvs key of None \<Rightarrow> dflt | Some v \<Rightarrow> v)"
  by (simp add: body_get_def)


lemma py_int_raises:
  "py_int rt v = Inl e \<Longrightarrow> e = TypeError \<or> e = ValueError \<or> e = OverflowError"
  by (cases "(rt, v)" rule: py_int.cases) (auto split: option.splits)

lemma request_body_obj: "kvs \<noteq> [] \<Longrightarrow> request_body (JObj kvs) = JObj kvs"
  by (simp add: request_body_def)

text \<open>
  C4: the classifier is a total function of the question: for the empty string and for an
  absent question (\<open>None\<close>) it returns the default category, competitor tracking, and for
  every string it returns the first category, in the fixed order of the table, one of whose
  keyword groups has an alternative term that the lower-cased question contains, or the
  default when none has. The groups and their terms are those of \<open>keyword_table\<close>, written
  out term by term, so the statement also fixes how the code splits its pattern strings. The
  only assumption is on the runtime: lower-casing the empty string gives the empty string.
\<close>

theorem C4_classifier_total_first_match:
  assumes "str_lower rt [] = []"
  shows "detect_query_intent rt (JStr []) = Inr ''competitor_tracking''
     \<and> detect_query_intent rt JNull = Inr ''competitor_tracking''
     \<and> detect_query_intent rt (JStr s) = Inr (first_matching_category (str_lower rt s))
     \<and> map fst keyword_table =
         [''competitor_tracking'', ''campaign_performance'', ''price_elasticity'', ''promotional_calendar'']"
proof (intro conjI)
  show "detect_query_intent rt (JStr []) = Inr ''competitor_tracking''"
    using assms by (simp add: detect_query_intent_def scan_patterns_empty)
  show "detect_query_intent rt JNull = Inr ''competitor_tracking''"
    using assms by (simp add: detect_query_intent_def scan_patterns_empty)
  show "detect_query_intent rt (JStr s) = Inr (first_matching_category (str_lower rt s))"
    by (simp add: detect_query_intent_str first_matching_category_def scan_patterns_find
        patterns_split)
  show "map fst keyword_table =
         [''competitor_tracking'', ''campaign_performance'', ''price_elasticity'', ''promotional_calendar'']"
    by (simp add: keyword_table_def)
qed

theorem C4_witness:
  "str_lower example_runtime [] = []
   \<and> (detect_query_intent example_runtime (JStr []) = Inr ''competitor_tracking''
     \<and> detect_query_intent example_runtime JNull = Inr ''competitor_tracking''
     \<and> detect_query_intent example_runtime (JStr ''Kampanya'')
         = Inr (first_matching_category (str_lower example_runtime ''Kampanya''))
     \<and> map fst keyword_table =
         [''competitor_tracking'', ''campaign_performance'', ''price_elasticity'', ''promotional_calendar''])
   \<and> first_matching_category (str_lower example_runtime ''Kampanya'') = ''campaign_performance''
   \<and> detect_query_intent example_runtime (JStr ''Kampanya'') = Inr ''campaign_performance''
   \<and> detect_query_intent example_runtime (JStr ''optimum talep'') = Inr ''price_elasticity''
   \<and> detect_query_intent example_runtime (JStr ''takvim fiyat'') = Inr ''competitor_tracking''
   \<and> detect_query_intent example_runtime (JStr ''hello'') = Inr ''competitor_tracking''"
proof -
  have h: "str_lower example_runtime [] = []"
    by (simp add: example_runtime_def ascii_lower_def)
  have ev: "first_matching_category (str_lower example_runtime ''Kampanya'') = ''campaign_performance''"
    by code_simp
  have a: "detect_query_intent example_runtime (JStr ''Kampanya'') = Inr ''campaign_performance''"
    using C4_classifier_total_first_match [OF h, of "''Kampanya''"] ev by simp
  have ev2: "first_matching_category (str_lower example_runtime ''optimum talep'') = ''price_elasticity''"
    by code_simp
  have b: "detect_query_intent example_runtime (JStr ''optimum talep'') = Inr ''price_elasticity''"
    using C4_classifier_total_first_match [OF h, of "''optimum talep''"] ev2 by simp
  have ev3: "first_matching_category (str_lower example_runtime ''takvim fiyat'') = ''competitor_tracking''"
    by code_simp
  have c: "detect_query_intent example_runtime (JStr ''takvim fiyat'') = Inr ''competitor_tracking''"
    using C4_classifier_total_first_match [OF h, of "''takvim fiyat''"] ev3 by simp
  have ev4: "first_matching_category (str_lower example_runtime ''hello'') = ''competitor_tracking''"
    by code_simp
  have d: "detect_query_intent example_runtime (JStr ''hello'') = Inr ''competitor_tracking''"
    using C4_classifier_total_first_match [OF h, of "''hello''"] ev4 by simp
  show ?thesis
    by (rule conjI [OF h conjI [OF C4_classifier_total_first_match [OF h]
          conjI [OF ev conjI [OF a conjI [OF b conjI [OF c d]]]]]])
qed

text \<open>
  C10: for every string the classifier returns one of the four builder keys, so whenever the
  query type comes from classification (the field is missing or falsy), the lookup in
  \<open>query_functions\<close> finds a builder: the default of the lookup is not used.
\<close>

theorem C10_classification_finds_builder:
  "(\<exists>c. detect_query_intent rt (JStr s) = Inr c
        \<and> c \<in> {''competitor_tracking'', ''campaign_performance'', ''price_elasticity'',
                 ''promotional_calendar''})
   \<and> (\<forall>given c. body_get body ''query_type'' JNull = Inr given \<and> \<not> truthy given
          \<and> detect_query_intent rt question = Inr c
        \<longrightarrow> resolve_query_type rt body question = Inr (JStr c)
          \<and> (\<exists>f. map_of query_functions c = Some f \<and> select_query_function (JStr c) = Inr f))"
proof (intro conjI allI impI)
  show "\<exists>c. detect_query_intent rt (JStr s) = Inr c
        \<and> c \<in> {''competitor_tracking'', ''campaign_performance'', ''price_elasticity'',
                 ''promotional_calendar''}"
    using scan_patterns_builder_key by (simp add: detect_query_intent_str)
next
  fix given c
  assume h: "body_get body ''query_type'' JNull = Inr given \<and> \<not> truthy given
          \<and> detect_query_intent rt question = Inr c"
  then show "resolve_query_type rt body question = Inr (JStr c)"
    by (simp add: resolve_query_type_def bind_result_def)
  from h have "detect_query_intent rt question = Inr c" by simp
  then show "\<exists>f. map_of query_functions c = Some f \<and> select_query_function (JStr c) = Inr f"
    by (intro builder_key_lookup detect_query_intent_result)
qed

theorem C10_witness:
  "(body_get (JObj [(''question'', JStr ''Kampanya ROI'')]) ''query_type'' JNull = Inr JNull
    \<and> \<not> truthy JNull
    \<and> detect_query_intent example_runtime (JStr ''Kampanya ROI'') = Inr ''campaign_performance'')
   \<and> resolve_query_type example_runtime (JObj [(''question'', JStr ''Kampanya ROI'')])
        (JStr ''Kampanya ROI'') = Inr (JStr ''campaign_performance'')
   \<and> (\<exists>f. map_of query_functions ''campaign_performance'' = Some f
          \<and> select_query_function (JStr ''campaign_performance'') = Inr f)"
proof -
  have pre: "body_get (JObj [(''question'', JStr ''Kampanya ROI'')]) ''query_type'' JNull = Inr JNull
    \<and> \<not> truthy JNull
    \<and> detect_query_intent example_runtime (JStr ''Kampanya ROI'') = Inr ''campaign_performance''"
    by code_simp
  from C10_classification_finds_builder [of example_runtime "''Kampanya ROI''"
      "JObj [(''question'', JStr ''Kampanya ROI'')]" "JStr ''Kampanya ROI''"] pre
  have "resolve_query_type example_runtime (JObj [(''question'', JStr ''Kampanya ROI'')])
        (JStr ''Kampanya ROI'') = Inr (JStr ''campaign_performance'')
   \<and> (\<exists>f. map_of query_functions ''campaign_performance'' = Some f
          \<and> select_query_function (JStr ''campaign_performance'') = Inr f)"
    by blast
  with pre show ?thesis by blast
qed

subsection \<open>The request parameters\<close>

lemma effective_limit_obj:
  "effective_limit rt (JObj kvs) =
     (case py_int rt (case map_of kvs ''limit'' of None \<Rightarrow> JInt 100 | Some v \<Rightarrow> v) of
        Inl e \<Rightarrow> Inl e | Inr n \<Rightarrow> Inr (min n 500))"
  by (simp add: effective_limit_def body_get_obj bind_result_def split: sum.splits)

lemma handler_success_limit:
  assumes "pricing_intel_query rt warehouse request_json = Inr (Success r, 200)"
  shows "effective_limit rt (request_body request_json) = Inr (ok_limit r)
     \<and> (\<exists>query_func metadata.
          warehouse query_func (ok_limit r) (ok_query_type r) = Inr (ok_rows r, metadata))"
proof -
  from assms have "handler_try rt warehouse request_json = Inr r"
    by (auto simp: pricing_intel_query_def split: sum.splits if_splits prod.splits)
  then show ?thesis
    by (fastforce simp: handler_try_def Let_def bind_result_def raised_with_def
        split: sum.splits prod.splits)
qed

lemma handler_try_truthy_query_type:
  assumes "map_of kvs ''query_type'' = Some given" and "truthy given"
  shows "handler_try rt warehouse (JObj kvs) =
     bind_result (raised_with (Some given) (effective_limit rt (JObj kvs))) (\<lambda>limit.
     bind_result (raised_with (Some given) (select_query_function given)) (\<lambda>query_func.
     bind_result (raised_with (Some given) (warehouse query_func limit given))
       (\<lambda>(rows, metadata).
     bind_result (raised_with (Some given) (analyze_pricing_results rt rows given))
       (\<lambda>analysis.
     bind_result (raised_with (Some given) (calculate_pricing_summary rt rows given))
       (\<lambda>summary.
        Inr \<lparr>ok_success = True, ok_agent = ''pricing_intel'', ok_query_type = given,
             ok_limit = limit, ok_summary = summary, ok_insights = insights analysis,
             ok_recommendations = recommendations analysis, ok_alerts = alerts analysis,
             ok_row_count = length rows, ok_rows = rows, ok_metadata = metadata\<rparr>)))))"
proof -
  from assms(1) have "kvs \<noteq> []" by auto
  then have body: "request_body (JObj kvs) = JObj kvs" by (rule request_body_obj)
  have r: "resolve_query_type rt (JObj kvs) q = Inr given" for q
    using assms by (simp add: resolve_query_type_def body_get_obj bind_result_def)
  show ?thesis
    by (simp add: handler_try_def Let_def body body_get_obj r bind_result_def raised_with_def)
qed

lemma effective_limit_raises:
  "effective_limit rt (JObj kvs) = Inl e \<Longrightarrow> is_Exception e"
  by (auto simp: effective_limit_obj split: sum.splits dest!: py_int_raises)

text \<open>
  C1 (as amended): if the body supplies as \<open>query_type\<close> a non-empty string that is not one
  of the 8 recognized aliases, the handler does not classify the question: it keeps the string
  as the query type, and once the limit has converted, the only builder whose query it runs is
  the default one, \<open>sql_competitor_tracking\<close>, whatever the question is. The lookup does not
  fail on the unrecognized value: the request answers 200 when the warehouse returns rows, and
  fails only with the warehouse's exception or, before any builder is looked up, with the
  exception of a limit that \<open>int\<close> rejects.
\<close>

theorem C1_unrecognized_query_type_gets_default_builder:
  assumes "map_of kvs ''query_type'' = Some (JStr s)" and "s \<noteq> []"
    and "map_of query_functions s = None"
  shows "resolve_query_type rt (request_body (JObj kvs)) question = Inr (JStr s)
     \<and> select_query_function (JStr s) = Inr sql_competitor_tracking
     \<and> invoked_builder rt (request_body (JObj kvs)) = Inr sql_competitor_tracking
     \<and> (\<forall>limit rows metadata.
          effective_limit rt (request_body (JObj kvs)) = Inr limit
          \<and> warehouse sql_competitor_tracking limit (JStr s) = Inr (rows, metadata)
          \<longrightarrow> (\<exists>r. pricing_intel_query rt warehouse (JObj kvs) = Inr (Success r, 200)
                 \<and> ok_query_type r = JStr s \<and> ok_limit r = limit \<and> ok_rows r = rows
                 \<and> ok_metadata r = metadata))
     \<and> (\<forall>limit e.
          effective_limit rt (request_body (JObj kvs)) = Inr limit
          \<and> warehouse sql_competitor_tracking limit (JStr s) = Inl e \<and> is_Exception e
          \<longrightarrow> pricing_intel_query rt warehouse (JObj kvs) =
                Inr (Failure \<lparr>err_success = False, err_exception = e,
                              err_error_type = class_name e, err_agent = ''pricing_intel'',
                              err_query_type = JStr s\<rparr>, 500))
     \<and> (\<forall>e. effective_limit rt (request_body (JObj kvs)) = Inl e
          \<longrightarrow> pricing_intel_query rt warehouse (JObj kvs) =
                Inr (Failure \<lparr>err_success = False, err_exception = e,
                              err_error_type = class_name e, err_agent = ''pricing_intel'',
                              err_query_type = JStr s\<rparr>, 500))
     \<and> pricing_intel_query rt warehouse (JObj kvs)
         = pricing_intel_query rt (\<lambda>query_func. warehouse sql_competitor_tracking) (JObj kvs)
     \<and> (\<forall>q. pricing_intel_query rt warehouse (JObj ((''question'', q) # kvs))
              = pricing_intel_query rt warehouse (JObj kvs))"
proof -
  from assms(1) have "kvs \<noteq> []" by auto
  then have body: "request_body (JObj kvs) = JObj kvs" by (rule request_body_obj)
  have t: "truthy (JStr s)" using assms(2) by simp
  have r: "resolve_query_type rt (JObj kvs) q = Inr (JStr s)" for q
    using assms(1,2) by (simp add: resolve_query_type_def body_get_obj bind_result_def)
  have sel: "select_query_function (JStr s) = Inr sql_competitor_tracking"
    using assms(3) by (auto split: option.splits)
  note h = handler_try_truthy_query_type [OF assms(1) t]
  have inv: "invoked_builder rt (request_body (JObj kvs)) = Inr sql_competitor_tracking"
    by (simp add: body r sel invoked_builder_def body_get_obj bind_result_def
        del: select_query_function.simps)
  have ok: "\<exists>r. pricing_intel_query rt warehouse (JObj kvs) = Inr (Success r, 200)
                 \<and> ok_query_type r = JStr s \<and> ok_limit r = limit \<and> ok_rows r = rows
                 \<and> ok_metadata r = metadata"
    if "effective_limit rt (request_body (JObj kvs)) = Inr limit
          \<and> warehouse sql_competitor_tracking limit (JStr s) = Inr (rows, metadata)"
    for limit rows metadata
  proof -
    obtain a where a: "analyze_pricing_results rt rows (JStr s) = Inr a"
      by (simp add: analyze_pricing_results_returns)
    obtain u where u: "calculate_pricing_summary rt rows (JStr s) = Inr u"
      by (simp add: calculate_pricing_summary_returns)
    from that a u show ?thesis
      by (simp add: pricing_intel_query_def h body sel bind_result_def raised_with_def
          del: select_query_function.simps)
  qed
  have wh: "pricing_intel_query rt warehouse (JObj kvs) =
                Inr (Failure \<lparr>err_success = False, err_exception = e,
                              err_error_type = class_name e, err_agent = ''pricing_intel'',
                              err_query_type = JStr s\<rparr>, 500)"
    if "effective_limit rt (request_body (JObj kvs)) = Inr limit
          \<and> warehouse sql_competitor_tracking limit (JStr s) = Inl e \<and> is_Exception e"
    for limit e
    using that
    by (simp add: pricing_intel_query_def h body sel bind_result_def raised_with_def
        del: select_query_function.simps)
  have lm: "pricing_intel_query rt warehouse (JObj kvs) =
                Inr (Failure \<lparr>err_success = False, err_exception = e,
                              err_error_type = class_name e, err_agent = ''pricing_intel'',
                              err_query_type = JStr s\<rparr>, 500)"
    if "effective_limit rt (request_body (JObj kvs)) = Inl e" for e
  proof -
    from that have l: "effective_limit rt (JObj kvs) = Inl e" by (simp add: body)
    then have "is_Exception e" by (rule effective_limit_raises)
    with l show ?thesis
      by (simp add: pricing_intel_query_def h bind_result_def raised_with_def
          del: select_query_function.simps)
  qed
  have only: "pricing_intel_query rt warehouse (JObj kvs)
         = pricing_intel_query rt (\<lambda>query_func. warehouse sql_competitor_tracking) (JObj kvs)"
    by (simp add: pricing_intel_query_def h
        handler_try_truthy_query_type [OF assms(1) t, where warehouse = "\<lambda>query_func. warehouse sql_competitor_tracking"]
        sel bind_result_def raised_with_def del: select_query_function.simps)
  have quest: "pricing_intel_query rt warehouse (JObj ((''question'', q) # kvs))
              = pricing_intel_query rt warehouse (JObj kvs)" for q
  proof -
    have m: "map_of ((''question'', q) # kvs) ''query_type'' = Some (JStr s)"
      using assms(1) by simp
    have l: "effective_limit rt (JObj ((''question'', q) # kvs)) = effective_limit rt (JObj kvs)"
      by (simp add: effective_limit_obj)
    show ?thesis
      by (simp add: pricing_intel_query_def h handler_try_truthy_query_type [OF m t] l)
  qed
  show ?thesis
  proof (intro conjI allI impI)
    show "resolve_query_type rt (request_body (JObj kvs)) question = Inr (JStr s)"
      by (simp add: body r)
    show "select_query_function (JStr s) = Inr sql_competitor_tracking"
      by (rule sel)
    show "invoked_builder rt (request_body (JObj kvs)) = Inr sql_competitor_tracking"
      by (rule inv)
    show "pricing_intel_query rt warehouse (JObj kvs)
         = pricing_intel_query rt (\<lambda>query_func. warehouse sql_competitor_tracking) (JObj kvs)"
      by (rule only)
  next
    fix limit rows metadata
    assume "effective_limit rt (request_body (JObj kvs)) = Inr limit
          \<and> warehouse sql_competitor_tracking limit (JStr s) = Inr (rows, metadata)"
    then show "\<exists>r. pricing_intel_query rt warehouse (JObj kvs) = Inr (Success r, 200)
                 \<and> ok_query_type r = JStr s \<and> ok_limit r = limit \<and> ok_rows r = rows
                 \<and> ok_metadata r = metadata"
      by (rule ok)
  next
    fix limit e
    assume "effective_limit rt (request_body (JObj kvs)) = Inr limit
          \<and> warehouse sql_competitor_tracking limit (JStr s) = Inl e \<and> is_Exception e"
    then show "pricing_intel_query rt warehouse (JObj kvs) =
                Inr (Failure \<lparr>err_success = False, err_exception = e,
                              err_error_type = class_name e, err_agent = ''pricing_intel'',
                              err_query_type = JStr s\<rparr>, 500)"
      by (rule wh)
  next
    fix e
    assume "effective_limit rt (request_body (JObj kvs)) = Inl e"
    then show "pricing_intel_query rt warehouse (JObj kvs) =
                Inr (Failure \<lparr>err_success = False, err_exception = e,
                              err_error_type = class_name e, err_agent = ''pricing_intel'',
                              err_query_type = JStr s\<rparr>, 500)"
      by (rule lm)
  next
    fix q
    show "pricing_intel_query rt warehouse (JObj ((''question'', q) # kvs))
              = pricing_intel_query rt warehouse (JObj kvs)"
      by (rule quest)
  qed
qed

text \<open>
  The claim as stated fails: with the query type "foo" and a question that classifies as
  campaign performance, the handler runs the competitor tracking builder.
\<close>

theorem C1_counterexample_classification_not_used:
  "invoked_builder example_runtime
      (request_body (JObj [(''question'', JStr ''kampanya roi''), (''query_type'', JStr ''foo'')]))
     = Inr sql_competitor_tracking
   \<and> classified_builder example_runtime (JStr ''kampanya roi'') = Inr sql_campaign_performance
   \<and> map_of query_functions ''foo'' = None
   \<and> pricing_intel_query example_runtime (echo_warehouse [])
         (JObj [(''question'', JStr ''kampanya roi''), (''query_type'', JStr ''foo'')])
     = Inr (Success \<lparr>ok_success = True, ok_agent = ''pricing_intel'',
               ok_query_type = JStr ''foo'', ok_limit = 100,
               ok_summary = [(''total_records'', Count 0)],
               ok_insights = [Fixed No_data_found], ok_recommendations = [Fixed Widen_criteria],
               ok_alerts = [], ok_row_count = 0, ok_rows = [],
               ok_metadata = (sql_competitor_tracking, 100)\<rparr>, 200)"
  by code_simp

theorem C1_witness:
  "(map_of [(''question'', JStr ''kampanya roi''), (''query_type'', JStr ''foo'')] ''query_type''
      = Some (JStr ''foo'')
    \<and> ''foo'' \<noteq> [] \<and> map_of query_functions ''foo'' = None)
   \<and> (effective_limit example_runtime
        (request_body (JObj [(''question'', JStr ''kampanya roi''), (''query_type'', JStr ''foo'')]))
        = Inr 100
     \<and> echo_warehouse budget_only_rows sql_competitor_tracking 100 (JStr ''foo'')
        = Inr (budget_only_rows, (sql_competitor_tracking, 100)))
   \<and> invoked_builder example_runtime
        (request_body (JObj [(''question'', JStr ''kampanya roi''), (''query_type'', JStr ''foo'')]))
        = Inr sql_competitor_tracking
   \<and> (\<exists>r. pricing_intel_query example_runtime (echo_warehouse budget_only_rows)
             (JObj [(''question'', JStr ''kampanya roi''), (''query_type'', JStr ''foo'')])
             = Inr (Success r, 200)
        \<and> ok_query_type r = JStr ''foo'' \<and> ok_limit r = 100 \<and> ok_rows r = budget_only_rows
        \<and> ok_metadata r = (sql_competitor_tracking, 100))"
proof -
  have h1: "map_of [(''question'', JStr ''kampanya roi''), (''query_type'', JStr ''foo'')] ''query_type''
      = Some (JStr ''foo'')" by simp
  have h2: "''foo'' \<noteq> []" by simp
  have h3: "map_of query_functions ''foo'' = None" by (simp add: query_functions_def)
  have p: "effective_limit example_runtime
        (request_body (JObj [(''question'', JStr ''kampanya roi''), (''query_type'', JStr ''foo'')]))
        = Inr 100
     \<and> echo_warehouse budget_only_rows sql_competitor_tracking 100 (JStr ''foo'')
        = Inr (budget_only_rows, (sql_competitor_tracking, 100))"
    by code_simp
  note c = C1_unrecognized_query_type_gets_default_builder
      [OF h1 h2 h3, where rt = example_runtime and warehouse = "echo_warehouse budget_only_rows"
        and question = "JStr ''kampanya roi''"]
  from c have i: "invoked_builder example_runtime
        (request_body (JObj [(''question'', JStr ''kampanya roi''), (''query_type'', JStr ''foo'')]))
        = Inr sql_competitor_tracking"
    by blast
  from c p have r: "\<exists>r. pricing_intel_query example_runtime (echo_warehouse budget_only_rows)
             (JObj [(''question'', JStr ''kampanya roi''), (''query_type'', JStr ''foo'')])
             = Inr (Success r, 200)
        \<and> ok_query_type r = JStr ''foo'' \<and> ok_limit r = 100 \<and> ok_rows r = budget_only_rows
        \<and> ok_metadata r = (sql_competitor_tracking, 100)"
    by blast
  from h1 h2 h3 p i r show ?thesis by blast
qed

text \<open>
  C2: the effective limit is the minimum of the requested integer and 500, with no lower
  bound, and 100 when the body has no limit field: 10000 gives 500, -5 gives -5. It is the
  limit the warehouse is called with and the one a successful response reports.
\<close>

theorem C2_effective_limit_upper_clamp_only:
  "(\<forall>n. map_of kvs ''limit'' = Some (JInt n) \<longrightarrow> effective_limit rt (JObj kvs) = Inr (min n 500))
   \<and> (map_of kvs ''limit'' = Some (JInt 10000) \<longrightarrow> effective_limit rt (JObj kvs) = Inr 500)
   \<and> (map_of kvs ''limit'' = Some (JInt (- 5)) \<longrightarrow> effective_limit rt (JObj kvs) = Inr (- 5))
   \<and> (map_of kvs ''limit'' = None \<longrightarrow> effective_limit rt (JObj kvs) = Inr 100)
   \<and> effective_limit rt (request_body JNull) = Inr 100
   \<and> (\<forall>r. pricing_intel_query rt warehouse request_json = Inr (Success r, 200) \<longrightarrow>
         effective_limit rt (request_body request_json) = Inr (ok_limit r)
         \<and> (\<exists>query_func metadata.
              warehouse query_func (ok_limit r) (ok_query_type r) = Inr (ok_rows r, metadata)))"
proof (intro conjI allI impI)
  fix r
  assume "pricing_intel_query rt warehouse request_json = Inr (Success r, 200)"
  from handler_success_limit [OF this]
  show "effective_limit rt (request_body request_json) = Inr (ok_limit r)"
    and "\<exists>query_func metadata.
              warehouse query_func (ok_limit r) (ok_query_type r) = Inr (ok_rows r, metadata)"
    by simp_all
qed (simp_all add: effective_limit_obj request_body_def)

theorem C2_witness:
  "effective_limit example_runtime (JObj [(''limit'', JInt 10000)]) = Inr 500
   \<and> effective_limit example_runtime (JObj [(''limit'', JInt (- 5))]) = Inr (- 5)
   \<and> effective_limit example_runtime (JObj [(''question'', JStr ''fiyat'')]) = Inr 100
   \<and> effective_limit example_runtime (JObj [(''limit'', JInt 250)]) = Inr 250
   \<and> (\<exists>r. pricing_intel_query example_runtime (echo_warehouse []) (JObj [(''limit'', JInt 10000)])
              = Inr (Success r, 200)
        \<and> effective_limit example_runtime (request_body (JObj [(''limit'', JInt 10000)])) = Inr (ok_limit r)
        \<and> ok_limit r = 500 \<and> ok_metadata r = (sql_competitor_tracking, 500))"
proof -
  have a: "effective_limit example_runtime (JObj [(''limit'', JInt 10000)]) = Inr 500"
    using C2_effective_limit_upper_clamp_only
      [where kvs = "[(''limit'', JInt 10000)]" and rt = example_runtime
        and warehouse = "echo_warehouse []" and request_json = JNull]
    by simp
  have b: "effective_limit example_runtime (JObj [(''limit'', JInt (- 5))]) = Inr (- 5)"
    using C2_effective_limit_upper_clamp_only
      [where kvs = "[(''limit'', JInt (- 5))]" and rt = example_runtime
        and warehouse = "echo_warehouse []" and request_json = JNull]
    by simp
  have c: "effective_limit example_runtime (JObj [(''question'', JStr ''fiyat'')]) = Inr 100"
    using C2_effective_limit_upper_clamp_only
      [where kvs = "[(''question'', JStr ''fiyat'')]" and rt = example_runtime
        and warehouse = "echo_warehouse []" and request_json = JNull]
    by simp
  have d: "effective_limit example_runtime (JObj [(''limit'', JInt 250)]) = Inr 250"
    using C2_effective_limit_upper_clamp_only
      [where kvs = "[(''limit'', JInt 250)]" and rt = example_runtime
        and warehouse = "echo_warehouse []" and request_json = JNull]
    by simp
  have ev: "pricing_intel_query example_runtime (echo_warehouse []) (JObj [(''limit'', JInt 10000)])
      = Inr (Success \<lparr>ok_success = True, ok_agent = ''pricing_intel'',
               ok_query_type = JStr ''competitor_tracking'', ok_limit = 500,
               ok_summary = [(''total_records'', Count 0)],
               ok_insights = [Fixed No_data_found], ok_recommendations = [Fixed Widen_criteria],
               ok_alerts = [], ok_row_count = 0, ok_rows = [],
               ok_metadata = (sql_competitor_tracking, 500)\<rparr>, 200)"
    by code_simp
  from C2_effective_limit_upper_clamp_only
    [where kvs = "[]" and rt = example_runtime and warehouse = "echo_warehouse []"
      and request_json = "JObj [(''limit'', JInt 10000)]"] ev
  have e: "effective_limit example_runtime (request_body (JObj [(''limit'', JInt 10000)]))
      = Inr (ok_limit \<lparr>ok_success = True, ok_agent = ''pricing_intel'',
               ok_query_type = JStr ''competitor_tracking'', ok_limit = 500,
               ok_summary = [(''total_records'', Count 0)],
               ok_insights = [Fixed No_data_found], ok_recommendations = [Fixed Widen_criteria],
               ok_alerts = [], ok_row_count = 0, ok_rows = [],
               ok_metadata = (sql_competitor_tracking, 500 :: int)\<rparr>)"
    by blast
  from a b c d ev e show ?thesis by simp
qed



end
